theory Spec2Isabelle
  imports Main
begin

section \<open>Python strings\<close>

text \<open>
  A Python \<^verbatim>\<open>str\<close> is a sequence of Unicode code points, so it is modelled as a list
  of natural numbers. ASCII literals of the source are written with \<open>ascii\<close>; the two
  non-ASCII characters of the source, the bullet U+2022 and the arrow U+2192, are given
  by their code points.
\<close>

type_synonym pystr = "nat list"

type_synonym bytes = "char list"

definition ascii :: "string \<Rightarrow> pystr" where
  "ascii s = map of_char s"

definition BULLET :: pystr where
  "BULLET = [8226]"

definition ARROW :: pystr where
  "ARROW = [8594]"

definition DQ :: pystr where
  "DQ = [34]"

text \<open>
  \<^verbatim>\<open>str.isspace\<close> of CPython on one code point: the characters removed by
  \<^verbatim>\<open>strip()\<close>, \<^verbatim>\<open>lstrip()\<close> without argument.
\<close>

definition is_space :: "nat \<Rightarrow> bool" where
  "is_space c \<longleftrightarrow>
     (9 \<le> c \<and> c \<le> 13) \<or> (28 \<le> c \<and> c \<le> 32) \<or> c = 133 \<or> c = 160 \<or> c = 5760 \<or>
     (8192 \<le> c \<and> c \<le> 8202) \<or> c = 8232 \<or> c = 8233 \<or> c = 8239 \<or> c = 8287 \<or> c = 12288"

text \<open>The line boundaries of \<^verbatim>\<open>str.splitlines\<close>.\<close>

definition is_linebreak :: "nat \<Rightarrow> bool" where
  "is_linebreak c \<longleftrightarrow>
     (10 \<le> c \<and> c \<le> 13) \<or> (28 \<le> c \<and> c \<le> 30) \<or> c = 133 \<or> c = 8232 \<or> c = 8233"

definition lstrip :: "pystr \<Rightarrow> pystr" where
  "lstrip s = dropWhile is_space s"

definition rstrip :: "pystr \<Rightarrow> pystr" where
  "rstrip s = rev (dropWhile is_space (rev s))"

definition strip :: "pystr \<Rightarrow> pystr" where
  "strip s = rstrip (lstrip s)"

definition startswith :: "pystr \<Rightarrow> pystr \<Rightarrow> bool" where
  "startswith s p \<longleftrightarrow> take (length p) s = p"

text \<open>
  \<^verbatim>\<open>str.splitlines()\<close>: the text is cut at every line boundary, \<^verbatim>\<open>\r\n\<close> counting
  as one boundary; the boundaries are not kept, the empty string has no line and a final
  boundary opens no further line.
\<close>

definition after_break :: "pystr \<Rightarrow> pystr" where
  "after_break r =
     (case r of
        [] \<Rightarrow> []
      | c # r' \<Rightarrow> (case r' of
                    [] \<Rightarrow> []
                  | d # r'' \<Rightarrow> if c = 13 \<and> d = 10 then r'' else r'))"

function splitlines :: "pystr \<Rightarrow> pystr list" where
  "splitlines s =
     (if s = [] then []
      else takeWhile (\<lambda>c. \<not> is_linebreak c) s
             # splitlines (after_break (dropWhile (\<lambda>c. \<not> is_linebreak c) s)))"
  by pat_completeness auto

termination splitlines
proof (relation "measure length")
  show "wf (measure length)" by simp
next
  fix s :: pystr
  assume ne: "s \<noteq> []"
  let ?r = "dropWhile (\<lambda>c. \<not> is_linebreak c) s"
  have le: "length ?r \<le> length s"
    by (rule length_dropWhile_le)
  have shorter: "length (after_break r) < length r" if "r \<noteq> []" for r
    using that by (auto simp: after_break_def split: list.splits)
  show "(after_break ?r, s) \<in> measure length"
  proof (cases "?r = []")
    case True
    have "after_break [] = []" by (simp add: after_break_def)
    with True have "length (after_break ?r) = 0" by (simp only: list.size)
    with ne show ?thesis by simp
  next
    case False
    from shorter [OF False] le show ?thesis by simp
  qed
qed

declare splitlines.simps [simp del]

text \<open>\<^verbatim>\<open>sep.join(xs)\<close>.\<close>

fun join :: "pystr \<Rightarrow> pystr list \<Rightarrow> pystr" where
  "join sep [] = []"
| "join sep [x] = x"
| "join sep (x # y # xs) = x @ sep @ join sep (y # xs)"


section \<open>Python values and exceptions\<close>

text \<open>
  An exception is its class and its message (\<^verbatim>\<open>str(e)\<close>). Every class of the model
  derives from \<^verbatim>\<open>Exception\<close>, so an \<^verbatim>\<open>except Exception\<close> clause catches each of them.
\<close>

datatype exn_class =
  AttributeError | IndexError | KeyError | TypeError | ValueError | OSError
  | CalledProcessError | JSONDecodeError | RuntimeError

datatype py_exn = PyExn exn_class pystr

fun exc_str :: "py_exn \<Rightarrow> pystr" where
  "exc_str (PyExn c msg) = msg"

text \<open>
  The values the program handles: what \<^verbatim>\<open>json.loads\<close> returns (a float is kept as its
  IEEE-754 bit pattern, a dict as its items in insertion order), and objects with
  attributes, as the response of the generative-text client is. Reading an attribute
  gives a value or, for a property, may raise.
\<close>

datatype pyval =
  PNone
  | PBool bool
  | PInt int
  | PFloat nat
  | PStr pystr
  | PList "pyval list"
  | PDict "(pystr \<times> pyval) list"
  | PObj "(string \<times> (py_exn + pyval)) list"

fun type_name :: "pyval \<Rightarrow> string" where
  "type_name PNone = ''NoneType''"
| "type_name (PBool b) = ''bool''"
| "type_name (PInt i) = ''int''"
| "type_name (PFloat f) = ''float''"
| "type_name (PStr s) = ''str''"
| "type_name (PList xs) = ''list''"
| "type_name (PDict d) = ''dict''"
| "type_name (PObj attrs) = ''object''"

definition no_attribute :: "pyval \<Rightarrow> string \<Rightarrow> py_exn" where
  "no_attribute v name =
     PyExn AttributeError
       (ascii ([CHR 0x27] @ type_name v @ [CHR 0x27] @ '' object has no attribute ''
               @ [CHR 0x27] @ name @ [CHR 0x27]))"

text \<open>
  \<^verbatim>\<open>v.name\<close> for the attribute names the program reads on a response (\<^verbatim>\<open>text\<close>,
  \<^verbatim>\<open>candidates\<close>, \<^verbatim>\<open>content\<close>, \<^verbatim>\<open>parts\<close>): only an object has them.
\<close>

fun getattr :: "pyval \<Rightarrow> string \<Rightarrow> py_exn + pyval" where
  "getattr (PObj attrs) name =
     (case map_of attrs name of
        None \<Rightarrow> Inl (no_attribute (PObj attrs) name)
      | Some r \<Rightarrow> r)"
| "getattr v name = Inl (no_attribute v name)"

text \<open>\<^verbatim>\<open>hasattr\<close> swallows an AttributeError only; any other exception passes through.\<close>

definition hasattr :: "pyval \<Rightarrow> string \<Rightarrow> py_exn + bool" where
  "hasattr v name =
     (case getattr v name of
        Inr x \<Rightarrow> Inr True
      | Inl (PyExn c msg) \<Rightarrow> if c = AttributeError then Inr False else Inl (PyExn c msg))"

fun truthy :: "pyval \<Rightarrow> bool" where
  "truthy PNone = False"
| "truthy (PBool b) = b"
| "truthy (PInt i) = (i \<noteq> 0)"
| "truthy (PFloat f) = (f \<noteq> 0 \<and> f \<noteq> 2 ^ 63)"
| "truthy (PStr s) = (s \<noteq> [])"
| "truthy (PList xs) = (xs \<noteq> [])"
| "truthy (PDict d) = (d \<noteq> [])"
| "truthy (PObj attrs) = True"

text \<open>\<^verbatim>\<open>v[0]\<close>.\<close>

fun subscript0 :: "pyval \<Rightarrow> py_exn + pyval" where
  "subscript0 (PList xs) =
     (case xs of
        [] \<Rightarrow> Inl (PyExn IndexError (ascii ''list index out of range''))
      | x # _ \<Rightarrow> Inr x)"
| "subscript0 (PStr s) =
     (case s of
        [] \<Rightarrow> Inl (PyExn IndexError (ascii ''string index out of range''))
      | c # _ \<Rightarrow> Inr (PStr [c]))"
| "subscript0 (PDict d) = Inl (PyExn KeyError (ascii ''0''))"
| "subscript0 v =
     Inl (PyExn TypeError
            (ascii ([CHR 0x27] @ type_name v @ [CHR 0x27] @ '' object is not subscriptable'')))"

text \<open>
  \<^verbatim>\<open>v.strip()\<close>: the stripped string for a \<^verbatim>\<open>str\<close>; no other value of the model has
  a callable \<^verbatim>\<open>strip\<close>.
\<close>

fun call_strip :: "pyval \<Rightarrow> py_exn + pystr" where
  "call_strip (PStr s) = Inr (strip s)"
| "call_strip (PObj attrs) =
     (case getattr (PObj attrs) ''strip'' of
        Inl e \<Rightarrow> Inl e
      | Inr f \<Rightarrow> Inl (PyExn TypeError
                        (ascii ([CHR 0x27] @ type_name f @ [CHR 0x27] @ '' object is not callable''))))"
| "call_strip v = Inl (no_attribute v ''strip'')"

text \<open>\<^verbatim>\<open>v.get(key, default)\<close>: only a dict has the method.\<close>

fun call_get :: "pyval \<Rightarrow> pystr \<Rightarrow> pyval \<Rightarrow> py_exn + pyval" where
  "call_get (PDict d) key dflt =
     Inr (case map_of d key of None \<Rightarrow> dflt | Some v \<Rightarrow> v)"
| "call_get (PObj attrs) key dflt =
     (case getattr (PObj attrs) ''get'' of
        Inl e \<Rightarrow> Inl e
      | Inr f \<Rightarrow> Inl (PyExn TypeError
                        (ascii ([CHR 0x27] @ type_name f @ [CHR 0x27] @ '' object is not callable''))))"
| "call_get v key dflt = Inl (no_attribute v ''get'')"

definition and_then :: "py_exn + 'a \<Rightarrow> ('a \<Rightarrow> py_exn + 'b) \<Rightarrow> py_exn + 'b" where
  "and_then m f = (case m of Inl e \<Rightarrow> Inl e | Inr x \<Rightarrow> f x)"

section \<open>Safe extraction\<close>

text \<open>
  The first \<^verbatim>\<open>try\<close> block of \<^verbatim>\<open>extract_text\<close>: \<open>Inr (Some s)\<close> when it returns
  \<open>s\<close>, \<open>Inr None\<close> when the condition is false and control leaves the block, \<open>Inl e\<close>
  when it raises. The attribute is read three times, as in the source.
\<close>

definition extract_text_direct :: "pyval \<Rightarrow> py_exn + pystr option" where
  "extract_text_direct response =
     and_then (hasattr response ''text'') (\<lambda>has.
       if \<not> has then Inr None
       else and_then (getattr response ''text'') (\<lambda>t.
         if \<not> truthy t then Inr None
         else and_then (getattr response ''text'') (\<lambda>t'.
           and_then (call_strip t') (\<lambda>s. Inr (Some s)))))"

text \<open>The second block: \<^verbatim>\<open>response.candidates[0].content.parts[0].text.strip()\<close>.\<close>

definition extract_text_candidates :: "pyval \<Rightarrow> py_exn + pystr" where
  "extract_text_candidates response =
     and_then (getattr response ''candidates'') (\<lambda>cands.
     and_then (subscript0 cands) (\<lambda>cand.
     and_then (getattr cand ''content'') (\<lambda>content.
     and_then (getattr content ''parts'') (\<lambda>parts.
     and_then (subscript0 parts) (\<lambda>part.
     and_then (getattr part ''text'') (\<lambda>t.
     call_strip t))))))"

definition extract_text :: "pyval \<Rightarrow> py_exn + pystr" where
  "extract_text response =
     (case extract_text_direct response of
        Inr (Some s) \<Rightarrow> Inr s
      | _ \<Rightarrow> (case extract_text_candidates response of
                Inr s \<Rightarrow> Inr s
              | Inl e \<Rightarrow> Inr []))"


section \<open>The outside world\<close>

text \<open>
  What the program calls and does not define. Within one request every external call is
  made at most once with a given argument (the four prompts differ in their first line),
  so functions of the argument describe any behaviour of the collaborators during the
  request.
  \<^item> \<open>str_lower\<close>: \<^verbatim>\<open>str.lower()\<close>, whose Unicode tables belong to the runtime;
  \<^item> \<open>tmpdir\<close>: the directory \<^verbatim>\<open>tempfile.TemporaryDirectory()\<close> creates;
  \<^item> \<open>upload_read\<close>: \<^verbatim>\<open>await audio.read()\<close>;
  \<^item> \<open>write_file\<close>: \<^verbatim>\<open>open(path, "wb")\<close> and \<^verbatim>\<open>f.write(data)\<close>, \<open>Some e\<close> when it raises;
  \<^item> \<open>run_subprocess\<close>: the exit status of the command, or the exception of a
    command that could not be started;
  \<^item> \<open>called_process_error_str\<close>: the message of \<^verbatim>\<open>CalledProcessError\<close>;
  \<^item> \<open>whisper_transcribe\<close>: \<^verbatim>\<open>whisper_model.transcribe(path)\<close>, a dict;
  \<^item> \<open>generate_content\<close>: \<^verbatim>\<open>gemini_model.generate_content(prompt)\<close>;
  \<^item> \<open>json_loads\<close>: \<^verbatim>\<open>json.loads(text)\<close>.
\<close>

record env =
  str_lower :: "pystr \<Rightarrow> pystr"
  tmpdir :: pystr
  upload_read :: "py_exn + bytes"
  write_file :: "pystr \<Rightarrow> bytes \<Rightarrow> py_exn option"
  run_subprocess :: "pystr list \<Rightarrow> py_exn + int"
  called_process_error_str :: "pystr list \<Rightarrow> int \<Rightarrow> pystr"
  whisper_transcribe :: "pystr \<Rightarrow> py_exn + pyval"
  generate_content :: "pystr \<Rightarrow> py_exn + pyval"
  json_loads :: "pystr \<Rightarrow> py_exn + pyval"

text \<open>
  The calls to the outside are recorded, in order. An operation returns its result, or
  the exception it raises, together with the calls it made.
\<close>

datatype event =
  EvWrite pystr bytes
  | EvSubprocess "pystr list"
  | EvTranscribe pystr
  | EvGenerate pystr

type_synonym 'a io = "(py_exn + 'a) \<times> event list"

definition io_bind :: "'a io \<Rightarrow> ('a \<Rightarrow> 'b io) \<Rightarrow> 'b io" where
  "io_bind m f =
     (case m of
        (Inl e, evs) \<Rightarrow> (Inl e, evs)
      | (Inr x, evs) \<Rightarrow> (case f x of (r, evs') \<Rightarrow> (r, evs @ evs')))"

definition io_lift :: "py_exn + 'a \<Rightarrow> 'a io" where
  "io_lift r = (r, [])"

definition open_write :: "env \<Rightarrow> pystr \<Rightarrow> bytes \<Rightarrow> unit io" where
  "open_write e path data =
     ((case write_file e path data of None \<Rightarrow> Inr () | Some x \<Rightarrow> Inl x), [EvWrite path data])"

text \<open>\<^verbatim>\<open>subprocess.run(cmd, check=True, ...)\<close>: a non-zero exit status raises.\<close>

definition subprocess_run_check :: "env \<Rightarrow> pystr list \<Rightarrow> unit io" where
  "subprocess_run_check e cmd =
     ((case run_subprocess e cmd of
         Inl x \<Rightarrow> Inl x
       | Inr rc \<Rightarrow> if rc \<noteq> 0
                   then Inl (PyExn CalledProcessError (called_process_error_str e cmd rc))
                   else Inr ()),
      [EvSubprocess cmd])"

definition model_transcribe :: "env \<Rightarrow> pystr \<Rightarrow> pyval io" where
  "model_transcribe e path = (whisper_transcribe e path, [EvTranscribe path])"

definition model_generate :: "env \<Rightarrow> pystr \<Rightarrow> pyval io" where
  "model_generate e prompt = (generate_content e prompt, [EvGenerate prompt])"

section \<open>File helpers\<close>

text \<open>
  \<^verbatim>\<open>Path(p).suffix\<close> for a POSIX path (CPython up to 3.13): the name is the last
  component that is neither empty nor \<^verbatim>\<open>.\<close>, and the suffix starts at the last dot of
  the name unless that dot is the first or the last character.
\<close>

fun split_on :: "nat \<Rightarrow> pystr \<Rightarrow> pystr list" where
  "split_on sep [] = [[]]"
| "split_on sep (c # cs) =
     (if c = sep then [] # split_on sep cs
      else (case split_on sep cs of
              [] \<Rightarrow> [[c]]
            | l # ls \<Rightarrow> (c # l) # ls))"

definition path_name :: "pystr \<Rightarrow> pystr" where
  "path_name p =
     (case filter (\<lambda>x. x \<noteq> [] \<and> x \<noteq> ascii ''.'') (split_on 47 p) of
        [] \<Rightarrow> []
      | x # xs \<Rightarrow> last (x # xs))"

definition rfind :: "pystr \<Rightarrow> nat \<Rightarrow> int" where
  "rfind s c =
     (if c \<in> set s then int (length s) - 1 - int (length (takeWhile (\<lambda>x. x \<noteq> c) (rev s)))
      else - 1)"

definition path_suffix :: "pystr \<Rightarrow> pystr" where
  "path_suffix p =
     (let name = path_name p; i = rfind name 46
      in if 0 < i \<and> i < int (length name) - 1 then drop (nat i) name else [])"

record upload_file =
  filename :: "pystr option"
  content_type :: "pystr option"

definition video_exts :: "pystr set" where
  "video_exts = {ascii ''.mp4'', ascii ''.mkv'', ascii ''.avi'', ascii ''.mov'', ascii ''.webm''}"

definition is_video_file :: "env \<Rightarrow> pystr option \<Rightarrow> pystr option \<Rightarrow> bool" where
  "is_video_file e fname ctype =
     (if (case fname of
            None \<Rightarrow> False
          | Some f \<Rightarrow> f \<noteq> [] \<and> str_lower e (path_suffix f) \<in> video_exts)
      then True
      else if (case ctype of
                 None \<Rightarrow> False
               | Some c \<Rightarrow> c \<noteq> [] \<and> startswith c (ascii ''video/''))
      then True
      else False)"

definition ffmpeg_cmd :: "pystr \<Rightarrow> pystr \<Rightarrow> pystr list" where
  "ffmpeg_cmd input_path output_path =
     [ascii ''ffmpeg'', ascii ''-y'',
      ascii ''-i'', input_path,
      ascii ''-vn'',
      ascii ''-ac'', ascii ''1'',
      ascii ''-ar'', ascii ''16000'',
      output_path]"

definition extract_audio_with_ffmpeg :: "env \<Rightarrow> pystr \<Rightarrow> pystr \<Rightarrow> unit io" where
  "extract_audio_with_ffmpeg e input_path output_path =
     subprocess_run_check e (ffmpeg_cmd input_path output_path)"

text \<open>\<^verbatim>\<open>x or d\<close> on an optional string, and on a string.\<close>

definition or_else :: "pystr option \<Rightarrow> pystr \<Rightarrow> pystr" where
  "or_else x d = (case x of None \<Rightarrow> d | Some s \<Rightarrow> if s = [] then d else s)"

definition str_or :: "pystr \<Rightarrow> pystr \<Rightarrow> pystr" where
  "str_or s d = (if s = [] then d else s)"

text \<open>\<^verbatim>\<open>tmpdir_path / name\<close>, as a string, for a name without separator.\<close>

definition path_join :: "pystr \<Rightarrow> pystr \<Rightarrow> pystr" where
  "path_join d name = d @ ascii ''/'' @ name"

definition transcribe_with_whisper_local :: "env \<Rightarrow> upload_file \<Rightarrow> bytes \<Rightarrow> pystr io" where
  "transcribe_with_whisper_local e upload file_bytes =
     io_bind
       (if is_video_file e (filename upload) (content_type upload) then
          (let input_ext = str_or (path_suffix (or_else (filename upload) (ascii ''input''))) (ascii ''.mp4'');
               input_path = path_join (tmpdir e) (ascii ''input'' @ input_ext);
               audio_path = path_join (tmpdir e) (ascii ''audio.wav'')
           in io_bind (open_write e input_path file_bytes) (\<lambda>_.
              io_bind (extract_audio_with_ffmpeg e input_path audio_path) (\<lambda>_.
              model_transcribe e audio_path)))
        else
          (let input_ext = str_or (path_suffix (or_else (filename upload) (ascii ''audio''))) (ascii ''.wav'');
               input_path = path_join (tmpdir e) (ascii ''audio'' @ input_ext)
           in io_bind (open_write e input_path file_bytes) (\<lambda>_.
              model_transcribe e input_path)))
       (\<lambda>result.
          io_lift (and_then (call_get result (ascii ''text'') (PStr [])) call_strip))"


section \<open>Smart summaries\<close>

definition NL :: pystr where
  "NL = [10]"

text \<open>The prompt templates, line by line as in the source.\<close>

definition main_prompt :: "pystr \<Rightarrow> pystr \<Rightarrow> pystr" where
  "main_prompt transcript language =
     join NL
       [[],
        ascii ''Summarize the following meeting in '' @ language @ ascii ''.'',
        [],
        ascii ''Include clearly:'',
        ascii ''- Key discussion points'',
        ascii ''- Decisions taken'',
        ascii ''- Action items'',
        ascii ''- Deadlines / timelines'',
        ascii ''- Responsibilities / owners'',
        [],
        ascii ''Keep it concise but complete.'',
        [],
        ascii ''TRANSCRIPT:'',
        transcript,
        []]"

definition summarize_main :: "env \<Rightarrow> pystr \<Rightarrow> pystr \<Rightarrow> pystr io" where
  "summarize_main e transcript language =
     io_bind (model_generate e (main_prompt transcript language)) (\<lambda>response.
     io_lift (extract_text response))"

definition focused_prompt :: "pystr \<Rightarrow> pystr \<Rightarrow> pystr" where
  "focused_prompt transcript focus_prompt =
     join NL
       [[],
        ascii ''You are an expert meeting insight extraction engine.'',
        [],
        ascii ''USER CONCEPT PROMPT (FOCUS TOPICS):'',
        focus_prompt,
        [],
        ascii ''YOUR JOB:'',
        ascii ''Extract ONLY the information from the meeting that is relevant to the user''
          @ [39] @ ascii ''s conceptual topics above.'',
        ascii ''Examples of conceptual topics: '' @ DQ @ ascii ''deadlines and responsibilities'' @ DQ
          @ ascii '', '' @ DQ @ ascii ''actions and decisions'' @ DQ @ ascii '', '' @ DQ @ ascii ''risks''
          @ DQ @ ascii '','',
        DQ @ ascii ''budget approvals'' @ DQ @ ascii '', '' @ DQ @ ascii ''client complaints'' @ DQ
          @ ascii '', etc.'',
        [],
        ascii ''You MUST:'',
        ascii ''- Identify decisions related to the focus topics'',
        ascii ''- Identify responsibilities and owners related to the focus topics'',
        ascii ''- Identify action items related to the focus topics'',
        ascii ''- Identify deadlines or timelines if they are mentioned or clearly implied'',
        ascii ''- Use the transcript content and reasonable inference (never random guessing)'',
        ascii ''- Ignore all unrelated conversation'',
        [],
        ascii ''STRICT OUTPUT RULES:'',
        ascii ''- OUTPUT MUST ALWAYS BE IN ENGLISH'',
        ascii ''- OUTPUT MUST BEGIN IMMEDIATELY WITH BULLET POINTS ('' @ BULLET @ ascii '' ...)'',
        ascii ''- DO NOT write any introduction, explanation, or commentary'',
        ascii ''- DO NOT say things like '' @ DQ @ ascii ''Here is'' @ DQ @ ascii '', '' @ DQ @ ascii ''Okay''
          @ DQ @ ascii '', '' @ DQ @ ascii ''I will'' @ DQ @ ascii '', '' @ DQ @ ascii ''Based on'' @ DQ,
        ascii ''- DO NOT apologize'',
        ascii ''- DO NOT refuse'',
        ascii ''- DO NOT mention the transcript itself'',
        ascii ''- DO NOT hallucinate facts that are not supported or reasonably implied'',
        [],
        ascii ''BULLET FORMAT:'',
        ascii ''- Each bullet should be a complete, meaningful line, for example:'',
        ascii ''  '' @ BULLET
          @ ascii '' David will contact external market research firms before the next meeting'',
        ascii ''  '' @ BULLET
          @ ascii '' Anna is responsible for reviewing the customer account lifecycle'',
        ascii ''  '' @ BULLET
          @ ascii '' Decision: the team will investigate the root cause of the sales decline'',
        ascii ''  '' @ BULLET
          @ ascii '' Deadline: shortlist of vendors must be ready as soon as possible'',
        [],
        ascii ''IF THERE IS NO CLEAR, RELEVANT INFORMATION:'',
        ascii ''- Output exactly ONE bullet:'',
        ascii ''  '' @ BULLET
          @ ascii '' No relevant information was found in the meeting for the requested focus topics'',
        [],
        ascii ''TRANSCRIPT:'',
        transcript,
        []]"

text \<open>The fixed bullet returned by both fallback branches of \<^verbatim>\<open>summarize_focused\<close>.\<close>

definition NO_RELEVANT :: pystr where
  "NO_RELEVANT =
     BULLET @ ascii '' No relevant information was found in the meeting for the requested focus topics''"

text \<open>The \<^verbatim>\<open>for\<close> loop over \<open>lines\<close>, appending to \<open>bullet_lines\<close>.\<close>

fun bullet_loop :: "pystr list \<Rightarrow> pystr list \<Rightarrow> pystr list" where
  "bullet_loop bullet_lines [] = bullet_lines"
| "bullet_loop bullet_lines (line # lines) =
     (if \<not> startswith line BULLET
      then bullet_loop (bullet_lines @ [BULLET @ ascii '' '' @ line]) lines
      else bullet_loop (bullet_lines @ [line]) lines)"

text \<open>\<^verbatim>\<open>[line.strip() for line in text.splitlines() if line.strip()]\<close>.\<close>

definition stripped_lines :: "pystr \<Rightarrow> pystr list" where
  "stripped_lines text = map strip (filter (\<lambda>line. strip line \<noteq> []) (splitlines text))"

text \<open>The body of \<^verbatim>\<open>if not text.lstrip().startswith(...)\<close>.\<close>

definition rebullet :: "pystr \<Rightarrow> pystr" where
  "rebullet text =
     (let lines = stripped_lines text
      in if lines = [] then NO_RELEVANT
         else join NL (bullet_loop [] lines))"

text \<open>What \<^verbatim>\<open>summarize_focused\<close> does with \<open>text\<close> once it is extracted and stripped.\<close>

definition focused_fallbacks :: "pystr \<Rightarrow> pystr" where
  "focused_fallbacks text =
     (if text = [] then NO_RELEVANT
      else if \<not> startswith (lstrip text) BULLET then rebullet text
      else text)"

definition summarize_focused :: "env \<Rightarrow> pystr \<Rightarrow> pystr \<Rightarrow> pystr io" where
  "summarize_focused e transcript focus_prompt =
     io_bind (model_generate e (focused_prompt transcript focus_prompt)) (\<lambda>response.
     io_lift (and_then (extract_text response) (\<lambda>extracted.
       Inr (focused_fallbacks (strip extracted)))))"

section \<open>Structured insights\<close>

definition insights_prompt :: "pystr \<Rightarrow> pystr" where
  "insights_prompt transcript =
     join NL
       [[],
        ascii ''Extract structured meeting intelligence from the transcript.'',
        [],
        ascii ''OUTPUT JSON EXACTLY IN THIS FORMAT:'',
        ascii ''{'',
        ascii ''  '' @ DQ @ ascii ''actions'' @ DQ @ ascii '': ['',
        ascii ''    { '' @ DQ @ ascii ''task'' @ DQ @ ascii '': '' @ DQ @ ascii ''...'' @ DQ @ ascii '', ''
          @ DQ @ ascii ''owner'' @ DQ @ ascii '': '' @ DQ @ ascii ''...'' @ DQ @ ascii '', ''
          @ DQ @ ascii ''deadline'' @ DQ @ ascii '': '' @ DQ @ ascii ''...'' @ DQ @ ascii '' }'',
        ascii ''  ],'',
        ascii ''  '' @ DQ @ ascii ''decisions'' @ DQ @ ascii '': ['' @ DQ @ ascii ''...'' @ DQ @ ascii ''],'',
        ascii ''  '' @ DQ @ ascii ''owners'' @ DQ @ ascii '': ['',
        ascii ''    { '' @ DQ @ ascii ''person'' @ DQ @ ascii '': '' @ DQ @ ascii ''...'' @ DQ @ ascii '', ''
          @ DQ @ ascii ''responsibility'' @ DQ @ ascii '': '' @ DQ @ ascii ''...'' @ DQ @ ascii '' }'',
        ascii ''  ],'',
        ascii ''  '' @ DQ @ ascii ''risks'' @ DQ @ ascii '': ['' @ DQ @ ascii ''...'' @ DQ @ ascii '']'',
        ascii ''}'',
        [],
        ascii ''RULES:'',
        ascii ''- Infer missing information if implied (e.g., '' @ DQ @ ascii ''you check this'' @ DQ
          @ ascii '' '' @ ARROW @ ascii '' assign to speaker)'',
        ascii ''- Leave fields as empty strings '' @ DQ @ DQ @ ascii '' if unknown (do NOT invent)'',
        ascii ''- No apologies'',
        ascii ''- No explanations'',
        ascii ''- ONLY return valid JSON that matches the structure above.'',
        [],
        ascii ''TRANSCRIPT:'',
        transcript,
        []]"

definition EMPTY_INSIGHTS :: pyval where
  "EMPTY_INSIGHTS =
     PDict [(ascii ''actions'', PList []), (ascii ''decisions'', PList []),
            (ascii ''owners'', PList []), (ascii ''risks'', PList [])]"

definition extract_structured_insights :: "env \<Rightarrow> pystr \<Rightarrow> pyval io" where
  "extract_structured_insights e transcript =
     io_bind (model_generate e (insights_prompt transcript)) (\<lambda>response.
     io_lift (and_then (extract_text response) (\<lambda>extracted.
       (case json_loads e extracted of
          Inr v \<Rightarrow> Inr v
        | Inl x \<Rightarrow> Inr EMPTY_INSIGHTS))))"

section \<open>Diarization\<close>

definition diarize_prompt :: "pystr \<Rightarrow> pystr" where
  "diarize_prompt transcript =
     join NL
       [[],
        ascii ''Rewrite the transcript with inferred speaker labels like Speaker 1, Speaker 2, etc.'',
        [],
        ascii ''Example format:'',
        ascii ''Speaker 1: ...'',
        ascii ''Speaker 2: ...'',
        ascii ''Speaker 1: ...'',
        [],
        ascii ''TRANSCRIPT:'',
        transcript,
        []]"

definition generate_diarized_transcript :: "env \<Rightarrow> pystr \<Rightarrow> pystr io" where
  "generate_diarized_transcript e transcript =
     io_bind (model_generate e (diarize_prompt transcript)) (\<lambda>response.
     io_lift (extract_text response))"

section \<open>API endpoint\<close>

text \<open>
  A response is the \<^verbatim>\<open>JSONResponse\<close> the handler builds itself, or the plain-text
  response of the server when an exception leaves the handler or the framework.
\<close>

datatype http_response =
  JSONResponse (status_code: int) (content: pyval)
  | PlainTextResponse (status_code: int) (body_text: pystr)

text \<open>
  The \<^verbatim>\<open>JSONResponse\<close> of an error branch, built by the handler inside its \<^verbatim>\<open>except\<close>
  clause. Its body holds one string, the message of the caught exception, which is taken
  to be text that the UTF-8 encoding accepts.
\<close>

definition error_response :: "int \<Rightarrow> string \<Rightarrow> py_exn \<Rightarrow> http_response" where
  "error_response code what x =
     JSONResponse code (PDict [(ascii ''error'', PStr (ascii what @ exc_str x))])"

text \<open>The body of the third \<^verbatim>\<open>try\<close> block of \<^verbatim>\<open>process_meeting\<close>, up to its \<^verbatim>\<open>return\<close>.\<close>

definition summaries_and_insights :: "env \<Rightarrow> pystr \<Rightarrow> pystr \<Rightarrow> pystr \<Rightarrow> pyval io" where
  "summaries_and_insights e transcript_text language focus_prompt =
     io_bind (summarize_main e transcript_text language) (\<lambda>summary.
     io_bind (if strip focus_prompt \<noteq> []
              then summarize_focused e transcript_text (strip focus_prompt)
              else io_lift (Inr [])) (\<lambda>focused_summary.
     io_bind (extract_structured_insights e transcript_text) (\<lambda>structured.
     io_bind (generate_diarized_transcript e transcript_text) (\<lambda>diarized.
     io_lift
       (and_then (call_get structured (ascii ''actions'') (PList [])) (\<lambda>actions.
        and_then (call_get structured (ascii ''decisions'') (PList [])) (\<lambda>decisions.
        and_then (call_get structured (ascii ''owners'') (PList [])) (\<lambda>owners.
        and_then (call_get structured (ascii ''risks'') (PList [])) (\<lambda>risks.
        Inr (PDict
               [(ascii ''summary'', PStr summary),
                (ascii ''focused_summary'', PStr focused_summary),
                (ascii ''actions'', actions),
                (ascii ''decisions'', decisions),
                (ascii ''owners'', owners),
                (ascii ''risks'', risks),
                (ascii ''transcript'', PStr transcript_text),
                (ascii ''diarized'', PStr diarized)]))))))))))"

text \<open>
  The handler returns the dict of a successful request as it is, and the framework
  renders it after the handler has returned, outside every \<^verbatim>\<open>try\<close> of the source:
  \<^verbatim>\<open>json.dumps(content, ensure_ascii=False, allow_nan=False).encode("utf-8")\<close>. The dump
  refuses a float that is infinite or not a number, the encoding refuses a surrogate code
  point in a string or a key, and an object is no JSON value. A float is finite when
  the eleven exponent bits of its pattern are not all set.
\<close>

definition str_encodable :: "pystr \<Rightarrow> bool" where
  "str_encodable s = list_all (\<lambda>c. \<not> (55296 \<le> c \<and> c \<le> 57343)) s"

definition float_finite :: "nat \<Rightarrow> bool" where
  "float_finite f \<longleftrightarrow> (f div 2 ^ 52) mod 2 ^ 11 \<noteq> 2047"

fun json_renderable :: "pyval \<Rightarrow> bool" where
  "json_renderable PNone = True"
| "json_renderable (PBool b) = True"
| "json_renderable (PInt i) = True"
| "json_renderable (PFloat f) = float_finite f"
| "json_renderable (PStr s) = str_encodable s"
| "json_renderable (PList xs) = list_all json_renderable xs"
| "json_renderable (PDict d) =
     list_all (\<lambda>kv. str_encodable (fst kv) \<and> json_renderable (snd kv)) d"
| "json_renderable (PObj attrs) = False"

text \<open>
  What the client receives for a returned dict: status 200 with the dict as body, or the
  server's \<^verbatim>\<open>500 Internal Server Error\<close> when the rendering raises.
\<close>

definition serialize_response :: "pyval \<Rightarrow> http_response" where
  "serialize_response body =
     (if json_renderable body then JSONResponse 200 body
      else PlainTextResponse 500 (ascii ''Internal Server Error''))"

definition process_meeting ::
  "env \<Rightarrow> upload_file \<Rightarrow> pystr \<Rightarrow> pystr \<Rightarrow> http_response \<times> event list" where
  "process_meeting e audio language focus_prompt =
     (case upload_read e of
        Inl x \<Rightarrow> (error_response 400 ''Failed to read file: '' x, [])
      | Inr file_bytes \<Rightarrow>
          (case transcribe_with_whisper_local e audio file_bytes of
             (Inl x, evs) \<Rightarrow> (error_response 500 ''Transcription failed: '' x, evs)
           | (Inr transcript_text, evs) \<Rightarrow>
               (case summaries_and_insights e transcript_text language focus_prompt of
                  (Inl x, evs') \<Rightarrow> (error_response 500 ''Processing failed: '' x, evs @ evs')
                | (Inr body, evs') \<Rightarrow> (serialize_response body, evs @ evs'))))"


section \<open>Reference behaviour and sample collaborators\<close>

text \<open>
  The behaviour of \<^verbatim>\<open>extract_text\<close> as the specification words it: the direct text
  accessor when it exists and is a non-empty string; otherwise the text of the first part
  of the first candidate; otherwise the empty string.
\<close>

definition direct_text :: "pyval \<Rightarrow> pystr option" where
  "direct_text response =
     (case getattr response ''text'' of
        Inr (PStr t) \<Rightarrow> if t \<noteq> [] then Some t else None
      | _ \<Rightarrow> None)"

definition first_part_text :: "pyval \<Rightarrow> pystr option" where
  "first_part_text response =
     (case and_then (getattr response ''candidates'') (\<lambda>cands.
           and_then (subscript0 cands) (\<lambda>cand.
           and_then (getattr cand ''content'') (\<lambda>content.
           and_then (getattr content ''parts'') (\<lambda>parts.
           and_then (subscript0 parts) (\<lambda>part. getattr part ''text''))))) of
        Inr (PStr t) \<Rightarrow> Some t
      | _ \<Rightarrow> None)"

definition extract_text_spec :: "pyval \<Rightarrow> pystr" where
  "extract_text_spec response =
     (case direct_text response of
        Some t \<Rightarrow> strip t
      | None \<Rightarrow> (case first_part_text response of
                   Some t \<Rightarrow> strip t
                 | None \<Rightarrow> []))"

text \<open>
  Collaborators for concrete runs: every file write and the subprocess succeed, the
  transcription model hears \<^verbatim>\<open>" hello team "\<close>, and the generative-text client and the
  JSON parser are given. \<open>ascii_lower\<close> is \<^verbatim>\<open>str.lower()\<close> on ASCII strings.
\<close>

definition ascii_lower :: "pystr \<Rightarrow> pystr" where
  "ascii_lower s = map (\<lambda>c. if 65 \<le> c \<and> c \<le> 90 then c + 32 else c) s"

definition sample_env ::
  "(pystr \<Rightarrow> py_exn + pyval) \<Rightarrow> (pystr \<Rightarrow> py_exn + pyval) \<Rightarrow> env" where
  "sample_env gen loads =
     \<lparr>str_lower = ascii_lower,
      tmpdir = ascii ''/tmp/tmpk3v9'',
      upload_read = Inr [],
      write_file = (\<lambda>path data. None),
      run_subprocess = (\<lambda>cmd. Inr 0),
      called_process_error_str = (\<lambda>cmd rc. ascii ''Command returned non-zero exit status''),
      whisper_transcribe = (\<lambda>path. Inr (PDict [(ascii ''text'', PStr (ascii '' hello team ''))])),
      generate_content = gen,
      json_loads = loads\<rparr>"

text \<open>A response whose direct text accessor holds the given string.\<close>

definition text_response :: "pystr \<Rightarrow> pyval" where
  "text_response t = PObj [(''text'', Inr (PStr t))]"

text \<open>
  A response as the client gives it when the direct accessor raises: the text sits in the
  first part of the first candidate.
\<close>

definition candidate_response :: "pystr \<Rightarrow> pyval" where
  "candidate_response t =
     PObj [(''text'', Inl (PyExn ValueError (ascii ''no valid part''))),
           (''candidates'',
            Inr (PList [PObj [(''content'',
                               Inr (PObj [(''parts'', Inr (PList [PObj [(''text'', Inr (PStr t))]]))]))]]))]"

definition sample_upload :: upload_file where
  "sample_upload = \<lparr>filename = Some (ascii ''talk.wav''), content_type = Some (ascii ''audio/wav'')\<rparr>"

definition not_json :: "pystr \<Rightarrow> py_exn + pyval" where
  "not_json t = Inl (PyExn JSONDecodeError (ascii ''Expecting value: line 1 column 1 (char 0)''))"

text \<open>A client that answers every prompt except the diarization prompt.\<close>

definition diarization_down :: "pystr \<Rightarrow> py_exn + pyval" where
  "diarization_down p =
     (if take 2 p = [10, 82] then Inl (PyExn RuntimeError (ascii ''429 quota exceeded''))
      else Inr (text_response (ascii ''ok'')))"

text \<open>A client that answers the insights prompt with JSON of the documented shape.\<close>

definition sample_insights_text :: pystr where
  "sample_insights_text =
     ascii ''{'' @ DQ @ ascii ''actions'' @ DQ @ ascii '': [], '' @ DQ @ ascii ''decisions'' @ DQ
       @ ascii '': ['' @ DQ @ ascii ''ship'' @ DQ @ ascii ''], '' @ DQ @ ascii ''owners'' @ DQ
       @ ascii '': [], '' @ DQ @ ascii ''risks'' @ DQ @ ascii '': ['' @ DQ @ ascii ''delay'' @ DQ
       @ ascii '']}''"

definition sample_insights_items :: "(pystr \<times> pyval) list" where
  "sample_insights_items =
     [(ascii ''actions'', PList []), (ascii ''decisions'', PList [PStr (ascii ''ship'')]),
      (ascii ''owners'', PList []), (ascii ''risks'', PList [PStr (ascii ''delay'')])]"

definition insights_client :: "pystr \<Rightarrow> py_exn + pyval" where
  "insights_client p =
     (if take 2 p = [10, 69] then Inr (text_response sample_insights_text)
      else Inr (text_response (ascii ''ok'')))"

definition insights_loads :: "pystr \<Rightarrow> py_exn + pyval" where
  "insights_loads t = (if t = sample_insights_text then Inr (PDict sample_insights_items) else not_json t)"



text \<open>A client that gives the same answer to every prompt.\<close>

definition answering :: "pyval \<Rightarrow> pystr \<Rightarrow> py_exn + pyval" where
  "answering r p = Inr r"

text \<open>An answer with an introductory line followed by an indented bullet.\<close>

definition indented_bullet_text :: pystr where
  "indented_bullet_text = ascii ''Notes:'' @ [10, 32, 32, 8226, 32] @ ascii ''ship''"

text \<open>
  A client that answers the insights prompt with the given text and every other prompt
  with \<^verbatim>\<open>ok\<close>, and a parser that knows the value of that one text.
\<close>

definition insights_answering :: "pystr \<Rightarrow> pystr \<Rightarrow> py_exn + pyval" where
  "insights_answering js p =
     (if take 2 p = [10, 69] then Inr (text_response js) else Inr (text_response (ascii ''ok'')))"

definition loads_as :: "pystr \<Rightarrow> pyval \<Rightarrow> pystr \<Rightarrow> py_exn + pyval" where
  "loads_as js v t = (if t = js then Inr v else not_json t)"

text \<open>
  JSON of the documented shape whose one risk is the escape \<^verbatim>\<open>\ud800\<close>, which
  \<^verbatim>\<open>json.loads\<close> reads as a string of one surrogate code point.
\<close>

definition surrogate_insights_text :: pystr where
  "surrogate_insights_text =
     ascii ''{'' @ DQ @ ascii ''actions'' @ DQ @ ascii '': [], '' @ DQ @ ascii ''decisions'' @ DQ
       @ ascii '': [], '' @ DQ @ ascii ''owners'' @ DQ @ ascii '': [], '' @ DQ @ ascii ''risks'' @ DQ
       @ ascii '': ['' @ DQ @ [92] @ ascii ''ud800'' @ DQ @ ascii '']}''"

definition surrogate_insights_items :: "(pystr \<times> pyval) list" where
  "surrogate_insights_items =
     [(ascii ''actions'', PList []), (ascii ''decisions'', PList []),
      (ascii ''owners'', PList []), (ascii ''risks'', PList [PStr [55296]])]"



section \<open>Facts about the string operations\<close>

lemma bullet_loop_map:
  "bullet_loop acc lines =
     acc @ map (\<lambda>line. if startswith line BULLET then line else BULLET @ ascii '' '' @ line) lines"
  by (induction lines arbitrary: acc) auto

lemma startswith_BULLET: "startswith s BULLET \<longleftrightarrow> s \<noteq> [] \<and> hd s = 8226"
  by (cases s) (auto simp: startswith_def BULLET_def)

lemma linebreak_is_space: "is_linebreak c \<Longrightarrow> is_space c"
  by (auto simp: is_linebreak_def is_space_def)

lemma rstrip_decomp: "s = rstrip s @ rev (takeWhile is_space (rev s))"
proof -
  have "rstrip s @ rev (takeWhile is_space (rev s)) =
      rev (takeWhile is_space (rev s) @ dropWhile is_space (rev s))"
    unfolding rstrip_def by (simp only: rev_append)
  also have "\<dots> = s" by simp
  finally show ?thesis by simp
qed

lemma rstrip_idem: "rstrip (rstrip s) = rstrip s"
  by (simp add: rstrip_def)

lemma hd_rstrip: "rstrip s \<noteq> [] \<Longrightarrow> hd (rstrip s) = hd s"
proof -
  assume ne: "rstrip s \<noteq> []"
  have "hd s = hd (rstrip s @ rev (takeWhile is_space (rev s)))"
    using rstrip_decomp [of s] by simp
  with ne show ?thesis by simp
qed

lemma rstrip_Nil: "rstrip [] = []"
  by (simp add: rstrip_def)

lemma strip_Nil: "strip [] = []"
  by (simp add: strip_def lstrip_def rstrip_def)

lemma strip_hd: "strip s \<noteq> [] \<Longrightarrow> \<not> is_space (hd (strip s))"
proof -
  assume ne: "strip s \<noteq> []"
  then have r: "rstrip (lstrip s) \<noteq> []" by (simp add: strip_def)
  then have l: "lstrip s \<noteq> []" by (auto simp: rstrip_Nil)
  then have "\<not> is_space (hd (lstrip s))"
    unfolding lstrip_def by (rule hd_dropWhile)
  with hd_rstrip [OF r] show ?thesis by (simp add: strip_def)
qed

lemma lstrip_id: "s = [] \<or> \<not> is_space (hd s) \<Longrightarrow> lstrip s = s"
  by (cases s) (auto simp: lstrip_def)

lemma lstrip_strip: "lstrip (strip s) = strip s"
  using strip_hd [of s] by (intro lstrip_id) auto

lemma strip_idem: "strip (strip s) = strip s"
  using lstrip_strip [of s]
  by (simp add: strip_def [of "strip s"]) (simp add: strip_def rstrip_idem)

lemma rstrip_Cons: "\<not> is_space c \<Longrightarrow> rstrip (c # s) = c # rstrip s"
  by (simp add: rstrip_def dropWhile_append)

lemma strip_Cons: "\<not> is_space c \<Longrightarrow> strip (c # s) = c # rstrip s"
  by (simp add: strip_def lstrip_def rstrip_Cons)

lemma splitlines_Cons:
  "\<not> is_linebreak c \<Longrightarrow> \<exists>l ls. splitlines (c # s) = (c # l) # ls"
  by (subst splitlines.simps) simp

lemma stripped_lines_Cons:
  assumes "\<not> is_space c"
  shows "\<exists>l ls. stripped_lines (c # s) = (c # l) # ls"
proof -
  from assms have "\<not> is_linebreak c" using linebreak_is_space by blast
  from splitlines_Cons [OF this] obtain l ls where "splitlines (c # s) = (c # l) # ls"
    by blast
  then show ?thesis
    by (simp add: stripped_lines_def strip_Cons [OF assms])
qed

text \<open>
  A non-empty stripped text has a non-blank first line, which begins as the text does.
  So the second fallback of \<^verbatim>\<open>summarize_focused\<close> (\<^verbatim>\<open>if not lines\<close>) is never taken
  for the text that function passes on, which is stripped.
\<close>

lemma stripped_lines_of_stripped:
  assumes "strip t = t" and "t \<noteq> []"
  shows "\<exists>l ls. stripped_lines t = (hd t # l) # ls"
proof -
  from assms strip_hd [of t] have "\<not> is_space (hd t)" by simp
  from stripped_lines_Cons [OF this, of "tl t"] assms(2) show ?thesis by simp
qed

section \<open>Facts about the extraction of text\<close>

lemma and_then_Inr: "and_then m f = Inr y \<longleftrightarrow> (\<exists>x. m = Inr x \<and> f x = Inr y)"
  by (cases m) (auto simp: and_then_def)

lemma and_then_simps:
  "and_then (Inl x) f = Inl x"
  "and_then (Inr v) f = f v"
  by (simp_all add: and_then_def)

lemma call_strip_stripped: "call_strip v = Inr x \<Longrightarrow> strip x = x"
  by (cases v) (auto simp: strip_idem split: sum.splits)

lemma call_strip_Inr: "call_strip v = Inr x \<longleftrightarrow> (\<exists>s. v = PStr s \<and> x = strip s)"
  by (cases v) (auto split: sum.splits)

lemma extract_text_stripped: "extract_text r = Inr x \<Longrightarrow> strip x = x"
  by (auto simp: extract_text_def extract_text_direct_def extract_text_candidates_def
      and_then_Inr strip_Nil split: sum.splits option.splits if_splits dest: call_strip_stripped)

lemma extract_text_text_response:
  "extract_text (text_response t) = Inr (if t = [] then [] else strip t)"
  by (simp add: extract_text_def extract_text_direct_def extract_text_candidates_def
      text_response_def hasattr_def no_attribute_def and_then_simps)

lemma io_bind_simps:
  "io_bind (Inl x, evs) f = (Inl x, evs)"
  "io_bind (Inr v, evs) f = (fst (f v), evs @ snd (f v))"
  by (simp_all add: io_bind_def split: prod.splits)

lemma summarize_focused_result:
  assumes "generate_content e (focused_prompt transcript focus) = Inr response"
    and "extract_text response = Inr x"
  shows "summarize_focused e transcript focus =
     (Inr (focused_fallbacks (strip x)), [EvGenerate (focused_prompt transcript focus)])"
  using assms
  by (simp add: summarize_focused_def model_generate_def io_bind_simps io_lift_def and_then_simps)

section \<open>The focused summary\<close>

text \<open>
  Claim C3. When the generative-text call for the focused summary answers and the text
  extracted from the answer is empty, \<^verbatim>\<open>summarize_focused\<close> returns the fixed fallback
  string: the bullet U+2022, one space, and the sentence of the source.
\<close>

theorem summarize_focused_empty_text:
  assumes "generate_content e (focused_prompt transcript focus) = Inr response"
    and "extract_text response = Inr []"
  shows "fst (summarize_focused e transcript focus) = Inr NO_RELEVANT \<and>
     NO_RELEVANT = [8226, 32] @
       ascii ''No relevant information was found in the meeting for the requested focus topics''"
proof
  show "fst (summarize_focused e transcript focus) = Inr NO_RELEVANT"
    by (simp add: summarize_focused_result [OF assms] strip_Nil focused_fallbacks_def)
  show "NO_RELEVANT = [8226, 32] @
       ascii ''No relevant information was found in the meeting for the requested focus topics''"
    by (simp add: NO_RELEVANT_def BULLET_def ascii_def)
qed

theorem summarize_focused_empty_text_witness:
  "generate_content (sample_env (\<lambda>p. Inr (PObj [])) (\<lambda>t. Inr PNone))
       (focused_prompt (ascii ''hello team'') (ascii ''risks'')) = Inr (PObj []) \<and>
   extract_text (PObj []) = Inr [] \<and>
   fst (summarize_focused (sample_env (\<lambda>p. Inr (PObj [])) (\<lambda>t. Inr PNone))
          (ascii ''hello team'') (ascii ''risks'')) = Inr NO_RELEVANT"
proof -
  let ?e = "sample_env (\<lambda>p. Inr (PObj [])) (\<lambda>t. Inr PNone)"
  have g: "generate_content ?e (focused_prompt (ascii ''hello team'') (ascii ''risks'')) = Inr (PObj [])"
    by (simp add: sample_env_def)
  have x: "extract_text (PObj []) = Inr []"
    by (simp add: extract_text_def extract_text_direct_def extract_text_candidates_def
        hasattr_def no_attribute_def and_then_simps)
  from summarize_focused_empty_text [OF g x] g x show ?thesis by simp
qed

text \<open>
  The extracted text \<^verbatim>\<open>"Notes:\n  \<close>U+2022\<^verbatim>\<open> ship"\<close> is non-empty and neither of its two
  lines starts with the bullet: the second starts with a space. Prefixing every
  stripped non-blank line would give the bullet twice on the second line; the source
  tests the stripped line, finds the bullet and leaves that line as it is.
\<close>

theorem summarize_focused_indented_bullet_counterexample:
  "extract_text (text_response indented_bullet_text) = Inr indented_bullet_text \<and>
   indented_bullet_text \<noteq> [] \<and>
   splitlines indented_bullet_text = [ascii ''Notes:'', [32, 32, 8226, 32] @ ascii ''ship''] \<and>
   \<not> startswith (ascii ''Notes:'') BULLET \<and>
   \<not> startswith ([32, 32, 8226, 32] @ ascii ''ship'') BULLET \<and>
   join NL [BULLET @ ascii '' '' @ strip (ascii ''Notes:''),
            BULLET @ ascii '' '' @ strip ([32, 32, 8226, 32] @ ascii ''ship'')]
     = [8226, 32] @ ascii ''Notes:'' @ [10, 8226, 32, 8226, 32] @ ascii ''ship'' \<and>
   fst (summarize_focused (sample_env (answering (text_response indented_bullet_text)) not_json)
          (ascii ''hello team'') (ascii ''risks''))
     = Inr ([8226, 32] @ ascii ''Notes:'' @ [10, 8226, 32] @ ascii ''ship'') \<and>
   fst (summarize_focused (sample_env (answering (text_response indented_bullet_text)) not_json)
          (ascii ''hello team'') (ascii ''risks''))
     \<noteq> Inr ([8226, 32] @ ascii ''Notes:'' @ [10, 8226, 32, 8226, 32] @ ascii ''ship'')"
proof -
  let ?e = "sample_env (answering (text_response indented_bullet_text)) not_json"
  have g: "generate_content ?e (focused_prompt (ascii ''hello team'') (ascii ''risks''))
      = Inr (text_response indented_bullet_text)"
    by (simp add: sample_env_def answering_def)
  have st: "strip indented_bullet_text = indented_bullet_text"
    by (simp add: indented_bullet_text_def strip_def lstrip_def rstrip_def is_space_def ascii_def)
  have ne: "indented_bullet_text \<noteq> []"
    by (simp add: indented_bullet_text_def ascii_def)
  have x: "extract_text (text_response indented_bullet_text) = Inr indented_bullet_text"
    by (simp add: extract_text_text_response ne st)
  have sl: "splitlines indented_bullet_text = [ascii ''Notes:'', [32, 32, 8226, 32] @ ascii ''ship'']"
    by (simp add: indented_bullet_text_def splitlines.simps after_break_def is_linebreak_def
        ascii_def)
  have s1: "strip (ascii ''Notes:'') = ascii ''Notes:''"
    by (simp add: strip_def lstrip_def rstrip_def is_space_def ascii_def)
  have s2: "strip ([32, 32, 8226, 32] @ ascii ''ship'') = [8226, 32] @ ascii ''ship''"
    by (simp add: strip_def lstrip_def rstrip_def is_space_def ascii_def)
  have n1: "\<not> startswith (ascii ''Notes:'') BULLET"
    by (simp add: startswith_BULLET ascii_def)
  have n2: "\<not> startswith ([32, 32, 8226, 32] @ ascii ''ship'') BULLET"
    by (simp add: startswith_BULLET)
  have expected: "join NL [BULLET @ ascii '' '' @ strip (ascii ''Notes:''),
            BULLET @ ascii '' '' @ strip ([32, 32, 8226, 32] @ ascii ''ship'')]
     = [8226, 32] @ ascii ''Notes:'' @ [10, 8226, 32, 8226, 32] @ ascii ''ship''"
    by (simp add: strip_def lstrip_def rstrip_def is_space_def BULLET_def NL_def ascii_def)
  have lines: "stripped_lines indented_bullet_text = [ascii ''Notes:'', [8226, 32] @ ascii ''ship'']"
    by (simp add: stripped_lines_def sl)
      (simp add: strip_def lstrip_def rstrip_def is_space_def ascii_def)
  have nb: "\<not> startswith (lstrip indented_bullet_text) BULLET"
    by (simp add: startswith_BULLET lstrip_def indented_bullet_text_def is_space_def ascii_def)
  have "focused_fallbacks indented_bullet_text =
      [8226, 32] @ ascii ''Notes:'' @ [10, 8226, 32] @ ascii ''ship''"
    using ne nb
    by (simp add: focused_fallbacks_def rebullet_def lines bullet_loop_map startswith_BULLET)
      (simp add: BULLET_def NL_def ascii_def)
  then have r: "fst (summarize_focused ?e (ascii ''hello team'') (ascii ''risks''))
      = Inr ([8226, 32] @ ascii ''Notes:'' @ [10, 8226, 32] @ ascii ''ship'')"
    by (simp add: summarize_focused_result [OF g x] st)
  have diff: "fst (summarize_focused ?e (ascii ''hello team'') (ascii ''risks''))
      \<noteq> Inr ([8226, 32] @ ascii ''Notes:'' @ [10, 8226, 32, 8226, 32] @ ascii ''ship'')"
    by (simp add: r)
  from x ne sl n1 n2 expected r diff show ?thesis by blast
qed

text \<open>
  Claim C4, amended. When the extracted text is non-empty and none of its non-blank
  lines starts with the bullet once stripped (the source tests the stripped line),
  \<^verbatim>\<open>summarize_focused\<close> returns the non-blank lines of the text, each stripped and
  prefixed with the bullet and a space, joined by newlines in their order.
\<close>

theorem summarize_focused_prefixes_lines:
  assumes "generate_content e (focused_prompt transcript focus) = Inr response"
    and "extract_text response = Inr x"
    and "x \<noteq> []"
    and "\<forall>line \<in> set (stripped_lines x). \<not> startswith line BULLET"
  shows "fst (summarize_focused e transcript focus) =
     Inr (join NL (map (\<lambda>line. BULLET @ ascii '' '' @ line) (stripped_lines x)))"
proof -
  have sx: "strip x = x"
    using assms(2) by (rule extract_text_stripped)
  from stripped_lines_of_stripped [OF sx assms(3)]
  obtain l ls where lines: "stripped_lines x = (hd x # l) # ls" by blast
  have first: "\<not> startswith (hd x # l) BULLET"
    using assms(4) lines by simp
  have "lstrip x = x"
    using lstrip_strip [of x] sx by simp
  with first assms(3) have nb: "\<not> startswith (lstrip x) BULLET"
    by (simp add: startswith_BULLET)
  have ne: "stripped_lines x \<noteq> []"
    using lines by simp
  have "focused_fallbacks x = join NL (bullet_loop [] (stripped_lines x))"
    using assms(3) nb ne by (simp add: focused_fallbacks_def rebullet_def)
  also have "bullet_loop [] (stripped_lines x) =
      map (\<lambda>line. if startswith line BULLET then line else BULLET @ ascii '' '' @ line)
        (stripped_lines x)"
    by (simp add: bullet_loop_map)
  also have "\<dots> = map (\<lambda>line. BULLET @ ascii '' '' @ line) (stripped_lines x)"
    using assms(4) by (intro map_cong) auto
  finally have "focused_fallbacks x =
      join NL (map (\<lambda>line. BULLET @ ascii '' '' @ line) (stripped_lines x))" .
  then show ?thesis
    by (simp add: summarize_focused_result [OF assms(1,2)] sx)
qed

theorem summarize_focused_prefixes_lines_witness:
  "generate_content (sample_env (\<lambda>p. Inr (text_response [32, 97, 10, 10, 32, 98, 32])) (\<lambda>t. Inr PNone))
       (focused_prompt (ascii ''hello team'') (ascii ''risks''))
     = Inr (text_response [32, 97, 10, 10, 32, 98, 32]) \<and>
   extract_text (text_response [32, 97, 10, 10, 32, 98, 32]) = Inr [97, 10, 10, 32, 98] \<and>
   stripped_lines [97, 10, 10, 32, 98] = [[97], [98]] \<and>
   fst (summarize_focused (sample_env (\<lambda>p. Inr (text_response [32, 97, 10, 10, 32, 98, 32])) (\<lambda>t. Inr PNone))
          (ascii ''hello team'') (ascii ''risks''))
     = Inr [8226, 32, 97, 10, 8226, 32, 98]"
proof -
  let ?r = "text_response [32, 97, 10, 10, 32, 98, 32]"
  let ?e = "sample_env (\<lambda>p. Inr ?r) (\<lambda>t. Inr PNone)"
  have g: "generate_content ?e (focused_prompt (ascii ''hello team'') (ascii ''risks'')) = Inr ?r"
    by (simp add: sample_env_def)
  have x: "extract_text ?r = Inr [97, 10, 10, 32, 98]"
    by (simp add: extract_text_def extract_text_direct_def text_response_def hasattr_def
        and_then_simps strip_def lstrip_def rstrip_def is_space_def)
  have ne: "[97, 10, 10, 32, 98] \<noteq> ([] :: pystr)"
    by simp
  have ls: "stripped_lines [97, 10, 10, 32, 98] = [[97], [98]]"
    by (simp add: stripped_lines_def splitlines.simps after_break_def is_linebreak_def
        strip_def lstrip_def rstrip_def is_space_def)
  have nb: "\<forall>line \<in> set (stripped_lines [97, 10, 10, 32, 98]). \<not> startswith line BULLET"
    by (simp add: ls startswith_BULLET)
  from summarize_focused_prefixes_lines [OF g x ne nb] g x ls show ?thesis
    by (simp add: BULLET_def NL_def ascii_def)
qed

text \<open>
  Claim C10. \<^verbatim>\<open>summarize_focused\<close> returns what the fallback logic makes of the extracted
  text. For a non-empty text that does not begin with the bullet after left-stripping,
  the re-bulleting pass keeps every stripped line that already starts with the bullet as
  it is and prefixes the bullet and a space to the others only; and when the text has
  no non-blank line, the fixed fallback bullet is returned.
\<close>

theorem rebullet_never_double_prefixes:
  assumes "generate_content e (focused_prompt transcript focus) = Inr response"
    and "extract_text response = Inr x"
  shows "fst (summarize_focused e transcript focus) = Inr (focused_fallbacks x) \<and>
     (\<forall>t. t \<noteq> [] \<and> \<not> startswith (lstrip t) BULLET \<longrightarrow>
        (stripped_lines t \<noteq> [] \<longrightarrow>
           focused_fallbacks t =
             join NL (map (\<lambda>line. if startswith line BULLET then line
                                    else BULLET @ ascii '' '' @ line) (stripped_lines t))) \<and>
        (stripped_lines t = [] \<longrightarrow> focused_fallbacks t = NO_RELEVANT))"
proof
  have "strip x = x"
    using assms(2) by (rule extract_text_stripped)
  then show "fst (summarize_focused e transcript focus) = Inr (focused_fallbacks x)"
    by (simp add: summarize_focused_result [OF assms])
next
  show "\<forall>t. t \<noteq> [] \<and> \<not> startswith (lstrip t) BULLET \<longrightarrow>
        (stripped_lines t \<noteq> [] \<longrightarrow>
           focused_fallbacks t =
             join NL (map (\<lambda>line. if startswith line BULLET then line
                                    else BULLET @ ascii '' '' @ line) (stripped_lines t))) \<and>
        (stripped_lines t = [] \<longrightarrow> focused_fallbacks t = NO_RELEVANT)"
    by (simp add: focused_fallbacks_def rebullet_def bullet_loop_map)
qed

theorem rebullet_never_double_prefixes_witness:
  "fst (summarize_focused
          (sample_env (\<lambda>p. Inr (text_response (ascii ''Intro'' @ [10, 32, 32, 8226, 32, 97])))
             (\<lambda>t. Inr PNone))
          (ascii ''hello team'') (ascii ''risks''))
     = Inr ([8226, 32] @ ascii ''Intro'' @ [10, 8226, 32, 97]) \<and>
   focused_fallbacks [32, 10] = NO_RELEVANT"
proof -
  let ?x = "ascii ''Intro'' @ [10, 32, 32, 8226, 32, 97]"
  let ?r = "text_response ?x"
  let ?e = "sample_env (\<lambda>p. Inr ?r) (\<lambda>t. Inr PNone)"
  have g: "generate_content ?e (focused_prompt (ascii ''hello team'') (ascii ''risks'')) = Inr ?r"
    by (simp add: sample_env_def)
  have x: "extract_text ?r = Inr ?x"
    by (simp add: extract_text_def extract_text_direct_def text_response_def hasattr_def
        and_then_simps strip_def lstrip_def rstrip_def is_space_def ascii_def)
  have ls: "stripped_lines ?x = [ascii ''Intro'', [8226, 32, 97]]"
    by (simp add: stripped_lines_def splitlines.simps after_break_def is_linebreak_def
        strip_def lstrip_def rstrip_def is_space_def ascii_def)
  have nb: "?x \<noteq> [] \<and> \<not> startswith (lstrip ?x) BULLET"
    by (simp add: startswith_BULLET lstrip_def is_space_def ascii_def)
  have ls2: "stripped_lines [32, 10] = []"
    by (simp add: stripped_lines_def splitlines.simps after_break_def is_linebreak_def
        strip_def lstrip_def rstrip_def is_space_def)
  have nb2: "[32, 10] \<noteq> ([] :: pystr) \<and> \<not> startswith (lstrip [32, 10]) BULLET"
    by (simp add: startswith_BULLET lstrip_def is_space_def)
  note main = rebullet_never_double_prefixes [OF g x]
  from main have a: "fst (summarize_focused ?e (ascii ''hello team'') (ascii ''risks''))
      = Inr (focused_fallbacks ?x)"
    by (rule conjunct1)
  have ne: "stripped_lines ?x \<noteq> []"
    by (simp add: ls)
  have b: "focused_fallbacks ?x =
      join NL (map (\<lambda>line. if startswith line BULLET then line
                             else BULLET @ ascii '' '' @ line) (stripped_lines ?x))"
    by (rule main [THEN conjunct2, THEN spec, THEN mp, OF nb, THEN conjunct1, THEN mp, OF ne])
  have c: "focused_fallbacks [32, 10] = NO_RELEVANT"
    by (rule main [THEN conjunct2, THEN spec, THEN mp, OF nb2, THEN conjunct2, THEN mp, OF ls2])
  from a b c show ?thesis
    by (simp add: ls startswith_BULLET) (simp add: BULLET_def NL_def ascii_def)
qed

section \<open>Safe extraction never raises\<close>

lemma extract_text_candidates_spec:
  "(case extract_text_candidates r of Inr s \<Rightarrow> s | Inl x \<Rightarrow> []) =
     (case first_part_text r of Some t \<Rightarrow> strip t | None \<Rightarrow> [])"
proof -
  let ?part = "and_then (getattr r ''candidates'') (\<lambda>cands.
           and_then (subscript0 cands) (\<lambda>cand.
           and_then (getattr cand ''content'') (\<lambda>content.
           and_then (getattr content ''parts'') (\<lambda>parts.
           and_then (subscript0 parts) (\<lambda>part. getattr part ''text'')))))"
  have c: "extract_text_candidates r = and_then ?part call_strip"
    by (simp add: extract_text_candidates_def and_then_def split: sum.splits)
  show ?thesis
  proof (cases ?part)
    case (Inl x)
    then show ?thesis by (simp add: c first_part_text_def and_then_simps)
  next
    case (Inr v)
    then show ?thesis
      by (cases v) (simp_all add: c first_part_text_def and_then_simps split: sum.splits)
  qed
qed

lemma extract_text_direct_spec:
  "extract_text_direct r = Inr (Some s) \<longleftrightarrow> (\<exists>t. direct_text r = Some t \<and> s = strip t)"
proof (cases "getattr r ''text''")
  case (Inl x)
  then show ?thesis
    by (cases x) (simp add: extract_text_direct_def direct_text_def hasattr_def and_then_simps)
next
  case (Inr v)
  then show ?thesis
    by (cases v)
      (auto simp: extract_text_direct_def direct_text_def hasattr_def and_then_simps
        split: sum.splits)
qed

lemma extract_text_eq_spec: "extract_text r = Inr (extract_text_spec r)"
proof (cases "direct_text r")
  case None
  then have "\<And>s. extract_text_direct r \<noteq> Inr (Some s)"
    by (simp add: extract_text_direct_spec)
  then have "extract_text r =
      Inr (case extract_text_candidates r of Inr s \<Rightarrow> s | Inl x \<Rightarrow> [])"
    by (auto simp: extract_text_def split: sum.splits option.splits)
  with None show ?thesis
    by (simp add: extract_text_spec_def extract_text_candidates_spec)
next
  case (Some t)
  then have "extract_text_direct r = Inr (Some (strip t))"
    by (simp add: extract_text_direct_spec)
  with Some show ?thesis
    by (simp add: extract_text_def extract_text_spec_def)
qed

text \<open>
  Claim C7. \<^verbatim>\<open>extract_text\<close> returns a string for every response and never raises: the
  stripped direct text when that attribute exists and is a non-empty string; otherwise the
  stripped text of the first part of the first candidate; and the empty string when that
  access fails too.
\<close>

theorem extract_text_never_raises:
  "extract_text response =
     Inr (case direct_text response of
            Some t \<Rightarrow> strip t
          | None \<Rightarrow> (case first_part_text response of
                       Some t \<Rightarrow> strip t
                     | None \<Rightarrow> []))"
  using extract_text_eq_spec [of response] by (simp add: extract_text_spec_def)

theorem extract_text_never_raises_witness:
  "extract_text (text_response (ascii '' Hi '')) = Inr (ascii ''Hi'') \<and>
   extract_text (candidate_response (ascii '' Hi '')) = Inr (ascii ''Hi'') \<and>
   extract_text (PObj [(''text'', Inr (PStr [])), (''candidates'', Inr (PList []))]) = Inr [] \<and>
   extract_text (PInt 5) = Inr []"
proof -
  have s: "strip (ascii '' Hi '') = ascii ''Hi''"
    by (simp add: strip_def lstrip_def rstrip_def is_space_def ascii_def)
  have a: "direct_text (text_response (ascii '' Hi '')) = Some (ascii '' Hi '')"
    by (simp add: direct_text_def text_response_def ascii_def)
  have b: "direct_text (candidate_response (ascii '' Hi '')) = None \<and>
      first_part_text (candidate_response (ascii '' Hi '')) = Some (ascii '' Hi '')"
    by (simp add: direct_text_def first_part_text_def candidate_response_def and_then_simps)
  have c: "direct_text (PObj [(''text'', Inr (PStr [])), (''candidates'', Inr (PList []))]) = None \<and>
      first_part_text (PObj [(''text'', Inr (PStr [])), (''candidates'', Inr (PList []))]) = None"
    by (simp add: direct_text_def first_part_text_def and_then_simps)
  have d: "direct_text (PInt 5) = None \<and> first_part_text (PInt 5) = None"
    by (simp add: direct_text_def first_part_text_def and_then_simps)
  show ?thesis
    using extract_text_never_raises [of "text_response (ascii '' Hi '')"]
      extract_text_never_raises [of "candidate_response (ascii '' Hi '')"]
      extract_text_never_raises [of "PObj [(''text'', Inr (PStr [])), (''candidates'', Inr (PList []))]"]
      extract_text_never_raises [of "PInt 5"]
    by (simp add: a b c d s)
qed

section \<open>Facts about the operations\<close>

lemma io_bind_unfold:
  "io_bind m f =
     (case fst m of
        Inl x \<Rightarrow> (Inl x, snd m)
      | Inr v \<Rightarrow> (fst (f v), snd m @ snd (f v)))"
  by (cases m) (simp add: io_bind_def split: sum.splits prod.splits)

lemma generate_then:
  "io_bind (model_generate e p) (\<lambda>response. io_lift (f response)) =
     (and_then (generate_content e p) f, [EvGenerate p])"
  by (simp add: io_bind_unfold model_generate_def io_lift_def and_then_def split: sum.splits)

lemma summarize_main_unfold:
  "summarize_main e t language =
     (and_then (generate_content e (main_prompt t language)) extract_text,
      [EvGenerate (main_prompt t language)])"
  by (simp add: summarize_main_def generate_then)

lemma summarize_focused_unfold:
  "summarize_focused e t focus =
     (and_then (generate_content e (focused_prompt t focus))
        (\<lambda>response. and_then (extract_text response) (\<lambda>x. Inr (focused_fallbacks (strip x)))),
      [EvGenerate (focused_prompt t focus)])"
  by (simp add: summarize_focused_def generate_then)

lemma extract_structured_insights_unfold:
  "extract_structured_insights e t =
     (and_then (generate_content e (insights_prompt t))
        (\<lambda>response. and_then (extract_text response)
           (\<lambda>x. case json_loads e x of Inr v \<Rightarrow> Inr v | Inl err \<Rightarrow> Inr EMPTY_INSIGHTS)),
      [EvGenerate (insights_prompt t)])"
  by (simp add: extract_structured_insights_def generate_then)

lemma generate_diarized_transcript_unfold:
  "generate_diarized_transcript e t =
     (and_then (generate_content e (diarize_prompt t)) extract_text,
      [EvGenerate (diarize_prompt t)])"
  by (simp add: generate_diarized_transcript_def generate_then)

section \<open>Structured insights\<close>

text \<open>
  Claim C5. When the model answers and \<^verbatim>\<open>json.loads\<close> raises on the extracted text,
  \<^verbatim>\<open>extract_structured_insights\<close> raises nothing and returns the structure with the four
  keys \<^verbatim>\<open>actions\<close>, \<^verbatim>\<open>decisions\<close>, \<^verbatim>\<open>owners\<close>, \<^verbatim>\<open>risks\<close>, each an empty list.
\<close>

theorem insights_parse_failure_gives_empty_structure:
  assumes "generate_content e (insights_prompt transcript) = Inr response"
    and "extract_text response = Inr x"
    and "json_loads e x = Inl err"
  shows "fst (extract_structured_insights e transcript) =
     Inr (PDict [(ascii ''actions'', PList []), (ascii ''decisions'', PList []),
                 (ascii ''owners'', PList []), (ascii ''risks'', PList [])])"
  using assms
  by (simp add: extract_structured_insights_unfold and_then_simps EMPTY_INSIGHTS_def)

theorem insights_parse_failure_gives_empty_structure_witness:
  "generate_content
       (sample_env (\<lambda>p. Inr (text_response (ascii ''Sorry, I cannot do that.'')))
          (\<lambda>t. Inl (PyExn JSONDecodeError (ascii ''Expecting value: line 1 column 1 (char 0)''))))
       (insights_prompt (ascii ''hello team''))
     = Inr (text_response (ascii ''Sorry, I cannot do that.'')) \<and>
   extract_text (text_response (ascii ''Sorry, I cannot do that.''))
     = Inr (ascii ''Sorry, I cannot do that.'') \<and>
   fst (extract_structured_insights
          (sample_env (\<lambda>p. Inr (text_response (ascii ''Sorry, I cannot do that.'')))
             (\<lambda>t. Inl (PyExn JSONDecodeError (ascii ''Expecting value: line 1 column 1 (char 0)''))))
          (ascii ''hello team''))
     = Inr (PDict [(ascii ''actions'', PList []), (ascii ''decisions'', PList []),
                   (ascii ''owners'', PList []), (ascii ''risks'', PList [])])"
proof -
  let ?r = "text_response (ascii ''Sorry, I cannot do that.'')"
  let ?err = "PyExn JSONDecodeError (ascii ''Expecting value: line 1 column 1 (char 0)'')"
  let ?e = "sample_env (\<lambda>p. Inr ?r) (\<lambda>t. Inl ?err)"
  have g: "generate_content ?e (insights_prompt (ascii ''hello team'')) = Inr ?r"
    by (simp add: sample_env_def)
  have x: "extract_text ?r = Inr (ascii ''Sorry, I cannot do that.'')"
    by (simp add: extract_text_def extract_text_direct_def text_response_def hasattr_def
        and_then_simps strip_def lstrip_def rstrip_def is_space_def ascii_def)
  have j: "json_loads ?e (ascii ''Sorry, I cannot do that.'') = Inl ?err"
    by (simp add: sample_env_def)
  from insights_parse_failure_gives_empty_structure [OF g x j] g x show ?thesis
    by simp
qed

section \<open>The media normalizer\<close>

lemma ascii_eq_Nil: "ascii s = [] \<longleftrightarrow> s = []"
  by (simp add: ascii_def)

lemma transcribe_events_video:
  assumes "is_video_file e (filename u) (content_type u)"
  shows "snd (transcribe_with_whisper_local e u b) =
     (let inp = path_join (tmpdir e)
                  (ascii ''input'' @
                   str_or (path_suffix (or_else (filename u) (ascii ''input''))) (ascii ''.mp4''));
          aud = path_join (tmpdir e) (ascii ''audio.wav'')
      in EvWrite inp b #
         (if write_file e inp b = None
          then EvSubprocess (ffmpeg_cmd inp aud) #
               (if run_subprocess e (ffmpeg_cmd inp aud) = Inr 0 then [EvTranscribe aud] else [])
          else []))"
  using assms
  by (simp add: transcribe_with_whisper_local_def io_bind_unfold Let_def open_write_def
      extract_audio_with_ffmpeg_def subprocess_run_check_def model_transcribe_def io_lift_def
      split: sum.splits option.splits)

lemma transcribe_events_audio:
  assumes "\<not> is_video_file e (filename u) (content_type u)"
  shows "snd (transcribe_with_whisper_local e u b) =
     (let inp = path_join (tmpdir e)
                  (ascii ''audio'' @
                   str_or (path_suffix (or_else (filename u) (ascii ''audio''))) (ascii ''.wav''))
      in EvWrite inp b # (if write_file e inp b = None then [EvTranscribe inp] else []))"
  using assms
  by (simp add: transcribe_with_whisper_local_def io_bind_unfold Let_def open_write_def
      model_transcribe_def io_lift_def split: sum.splits option.splits)

text \<open>
  Claim C1. An upload is classified as video exactly when the lowercased suffix of its
  file name is one of the five video extensions or its content type begins with
  \<^verbatim>\<open>video/\<close>. For a video the calls made are the write of the upload, then, once it is
  written, the ffmpeg subprocess, then, once ffmpeg has exited with status 0, the
  transcription of the extracted audio: ffmpeg is invoked before the model is called.
  For any other upload no subprocess is invoked: the calls are the write and the
  transcription of the written file.
\<close>

theorem video_is_extracted_before_transcription:
  "(is_video_file e fname ctype \<longleftrightarrow>
      (\<exists>f. fname = Some f \<and> f \<noteq> [] \<and>
           str_lower e (path_suffix f) \<in>
             {ascii ''.mp4'', ascii ''.mkv'', ascii ''.avi'', ascii ''.mov'', ascii ''.webm''}) \<or>
      (\<exists>c. ctype = Some c \<and> startswith c (ascii ''video/''))) \<and>
   (is_video_file e (filename u) (content_type u) \<longrightarrow>
      snd (transcribe_with_whisper_local e u b) =
        (let inp = path_join (tmpdir e)
                     (ascii ''input'' @
                      str_or (path_suffix (or_else (filename u) (ascii ''input''))) (ascii ''.mp4''));
             aud = path_join (tmpdir e) (ascii ''audio.wav'')
         in EvWrite inp b #
            (if write_file e inp b = None
             then EvSubprocess (ffmpeg_cmd inp aud) #
                  (if run_subprocess e (ffmpeg_cmd inp aud) = Inr 0 then [EvTranscribe aud] else [])
             else []))) \<and>
   (\<not> is_video_file e (filename u) (content_type u) \<longrightarrow>
      (\<forall>cmd. EvSubprocess cmd \<notin> set (snd (transcribe_with_whisper_local e u b))) \<and>
      snd (transcribe_with_whisper_local e u b) =
        (let inp = path_join (tmpdir e)
                     (ascii ''audio'' @
                      str_or (path_suffix (or_else (filename u) (ascii ''audio''))) (ascii ''.wav''))
         in EvWrite inp b # (if write_file e inp b = None then [EvTranscribe inp] else [])))"
proof (intro conjI impI)
  show "is_video_file e fname ctype \<longleftrightarrow>
      (\<exists>f. fname = Some f \<and> f \<noteq> [] \<and>
           str_lower e (path_suffix f) \<in>
             {ascii ''.mp4'', ascii ''.mkv'', ascii ''.avi'', ascii ''.mov'', ascii ''.webm''}) \<or>
      (\<exists>c. ctype = Some c \<and> startswith c (ascii ''video/''))"
    by (cases fname; cases ctype)
      (auto simp: is_video_file_def video_exts_def startswith_def ascii_def)
next
  assume "is_video_file e (filename u) (content_type u)"
  then show "snd (transcribe_with_whisper_local e u b) =
        (let inp = path_join (tmpdir e)
                     (ascii ''input'' @
                      str_or (path_suffix (or_else (filename u) (ascii ''input''))) (ascii ''.mp4''));
             aud = path_join (tmpdir e) (ascii ''audio.wav'')
         in EvWrite inp b #
            (if write_file e inp b = None
             then EvSubprocess (ffmpeg_cmd inp aud) #
                  (if run_subprocess e (ffmpeg_cmd inp aud) = Inr 0 then [EvTranscribe aud] else [])
             else []))"
    by (rule transcribe_events_video)
next
  assume nv: "\<not> is_video_file e (filename u) (content_type u)"
  from transcribe_events_audio [OF nv, of b]
  show "\<forall>cmd. EvSubprocess cmd \<notin> set (snd (transcribe_with_whisper_local e u b))"
    by (simp add: Let_def)
  from nv show "snd (transcribe_with_whisper_local e u b) =
        (let inp = path_join (tmpdir e)
                     (ascii ''audio'' @
                      str_or (path_suffix (or_else (filename u) (ascii ''audio''))) (ascii ''.wav''))
         in EvWrite inp b # (if write_file e inp b = None then [EvTranscribe inp] else []))"
    by (rule transcribe_events_audio)
qed

theorem video_is_extracted_before_transcription_witness:
  "is_video_file (sample_env (\<lambda>p. Inr PNone) (\<lambda>t. Inr PNone))
     (Some (ascii ''standup.MP4'')) (Some (ascii ''application/octet-stream'')) \<and>
   is_video_file (sample_env (\<lambda>p. Inr PNone) (\<lambda>t. Inr PNone))
     (Some (ascii ''blob'')) (Some (ascii ''video/quicktime'')) \<and>
   \<not> is_video_file (sample_env (\<lambda>p. Inr PNone) (\<lambda>t. Inr PNone))
     (Some (ascii ''talk.wav'')) (Some (ascii ''audio/wav'')) \<and>
   snd (transcribe_with_whisper_local (sample_env (\<lambda>p. Inr PNone) (\<lambda>t. Inr PNone))
          \<lparr>filename = Some (ascii ''standup.MP4''),
           content_type = Some (ascii ''application/octet-stream'')\<rparr> [])
     = [EvWrite (ascii ''/tmp/tmpk3v9/input.MP4'') [],
        EvSubprocess (ffmpeg_cmd (ascii ''/tmp/tmpk3v9/input.MP4'') (ascii ''/tmp/tmpk3v9/audio.wav'')),
        EvTranscribe (ascii ''/tmp/tmpk3v9/audio.wav'')] \<and>
   snd (transcribe_with_whisper_local (sample_env (\<lambda>p. Inr PNone) (\<lambda>t. Inr PNone))
          \<lparr>filename = Some (ascii ''talk.wav''), content_type = Some (ascii ''audio/wav'')\<rparr> [])
     = [EvWrite (ascii ''/tmp/tmpk3v9/audio.wav'') [],
        EvTranscribe (ascii ''/tmp/tmpk3v9/audio.wav'')]"
proof -
  let ?e = "sample_env (\<lambda>p. Inr PNone) (\<lambda>t. Inr PNone)"
  let ?v = "\<lparr>filename = Some (ascii ''standup.MP4''),
             content_type = Some (ascii ''application/octet-stream'')\<rparr>"
  let ?a = "\<lparr>filename = Some (ascii ''talk.wav''), content_type = Some (ascii ''audio/wav'')\<rparr>"
  have s1: "path_suffix (ascii ''standup.MP4'') = ascii ''.MP4''"
    by (simp add: path_suffix_def path_name_def rfind_def ascii_def)
  have s2: "path_suffix (ascii ''talk.wav'') = ascii ''.wav''"
    by (simp add: path_suffix_def path_name_def rfind_def ascii_def)
  have s3: "path_suffix (ascii ''blob'') = []"
    by (simp add: path_suffix_def path_name_def rfind_def ascii_def)
  have l1: "str_lower ?e (ascii ''.MP4'') = ascii ''.mp4''"
    by (simp add: sample_env_def ascii_lower_def ascii_def)
  have l2: "str_lower ?e (ascii ''.wav'') = ascii ''.wav''"
    by (simp add: sample_env_def ascii_lower_def ascii_def)
  have l3: "str_lower ?e [] = []"
    by (simp add: sample_env_def ascii_lower_def)
  note main = video_is_extracted_before_transcription
  have v1: "is_video_file ?e (Some (ascii ''standup.MP4'')) (Some (ascii ''application/octet-stream''))"
    using main [of ?e "Some (ascii ''standup.MP4'')" "Some (ascii ''application/octet-stream'')", THEN conjunct1]
    by (simp add: s1 l1 ascii_eq_Nil)
  have v2: "is_video_file ?e (Some (ascii ''blob'')) (Some (ascii ''video/quicktime''))"
    using main [of ?e "Some (ascii ''blob'')" "Some (ascii ''video/quicktime'')", THEN conjunct1]
    by (simp add: startswith_def ascii_def)
  have v3: "\<not> is_video_file ?e (Some (ascii ''talk.wav'')) (Some (ascii ''audio/wav''))"
    using main [of ?e "Some (ascii ''talk.wav'')" "Some (ascii ''audio/wav'')", THEN conjunct1]
    by (simp add: s2 l2 ascii_eq_Nil) (simp add: startswith_def ascii_def)
  have w: "write_file ?e p d = None" for p d
    by (simp add: sample_env_def)
  have r: "run_subprocess ?e cmd = Inr 0" for cmd
    by (simp add: sample_env_def)
  have td: "tmpdir ?e = ascii ''/tmp/tmpk3v9''"
    by (simp add: sample_env_def)
  have e1: "snd (transcribe_with_whisper_local ?e ?v []) =
      [EvWrite (ascii ''/tmp/tmpk3v9/input.MP4'') [],
       EvSubprocess (ffmpeg_cmd (ascii ''/tmp/tmpk3v9/input.MP4'') (ascii ''/tmp/tmpk3v9/audio.wav'')),
       EvTranscribe (ascii ''/tmp/tmpk3v9/audio.wav'')]"
    using v1 main [of ?e _ _ ?v "[]", THEN conjunct2, THEN conjunct1]
    by (simp add: w r td s1 or_else_def str_or_def path_join_def Let_def) (simp add: ascii_def)
  have e2: "snd (transcribe_with_whisper_local ?e ?a []) =
      [EvWrite (ascii ''/tmp/tmpk3v9/audio.wav'') [], EvTranscribe (ascii ''/tmp/tmpk3v9/audio.wav'')]"
    using v3 main [of ?e _ _ ?a "[]", THEN conjunct2, THEN conjunct2]
    by (simp add: w td s2 or_else_def str_or_def path_join_def Let_def) (simp add: ascii_def)
  from v1 v2 v3 e1 e2 show ?thesis by simp
qed

section \<open>Facts about the request orchestrator\<close>

text \<open>The four prompts differ in their second character.\<close>

lemma prompt_heads:
  "take 2 (main_prompt t language) = [10, 83]"
  "take 2 (focused_prompt t focus) = [10, 89]"
  "take 2 (insights_prompt t) = [10, 69]"
  "take 2 (diarize_prompt t) = [10, 82]"
  by (simp_all add: main_prompt_def focused_prompt_def insights_prompt_def diarize_prompt_def
      NL_def ascii_def)

lemma focused_prompt_distinct:
  "focused_prompt t focus \<noteq> main_prompt t' language"
  "focused_prompt t focus \<noteq> insights_prompt t'"
  "focused_prompt t focus \<noteq> diarize_prompt t'"
proof -
  have "take 2 (focused_prompt t focus) \<noteq> take 2 (main_prompt t' language)"
    by (simp only: prompt_heads) simp
  then show "focused_prompt t focus \<noteq> main_prompt t' language" by metis
  have "take 2 (focused_prompt t focus) \<noteq> take 2 (insights_prompt t')"
    by (simp only: prompt_heads) simp
  then show "focused_prompt t focus \<noteq> insights_prompt t'" by metis
  have "take 2 (focused_prompt t focus) \<noteq> take 2 (diarize_prompt t')"
    by (simp only: prompt_heads) simp
  then show "focused_prompt t focus \<noteq> diarize_prompt t'" by metis
qed

lemma summaries_fst:
  "fst (summaries_and_insights e t language focus) =
     and_then (fst (summarize_main e t language)) (\<lambda>summary.
     and_then (if strip focus \<noteq> [] then fst (summarize_focused e t (strip focus)) else Inr [])
       (\<lambda>focused_summary.
     and_then (fst (extract_structured_insights e t)) (\<lambda>structured.
     and_then (fst (generate_diarized_transcript e t)) (\<lambda>diarized.
     and_then (call_get structured (ascii ''actions'') (PList [])) (\<lambda>actions.
     and_then (call_get structured (ascii ''decisions'') (PList [])) (\<lambda>decisions.
     and_then (call_get structured (ascii ''owners'') (PList [])) (\<lambda>owners.
     and_then (call_get structured (ascii ''risks'') (PList [])) (\<lambda>risks.
       Inr (PDict
              [(ascii ''summary'', PStr summary),
               (ascii ''focused_summary'', PStr focused_summary),
               (ascii ''actions'', actions),
               (ascii ''decisions'', decisions),
               (ascii ''owners'', owners),
               (ascii ''risks'', risks),
               (ascii ''transcript'', PStr t),
               (ascii ''diarized'', PStr diarized)])))))))))"
  by (simp add: summaries_and_insights_def io_bind_unfold io_lift_def and_then_def
      split: sum.splits)

lemma summaries_events_without_focus:
  assumes "strip focus = []"
  shows "set (snd (summaries_and_insights e t language focus)) \<subseteq>
     {EvGenerate (main_prompt t language), EvGenerate (insights_prompt t),
      EvGenerate (diarize_prompt t)}"
  using assms
  by (simp add: summaries_and_insights_def io_bind_unfold io_lift_def summarize_main_unfold
      extract_structured_insights_unfold generate_diarized_transcript_unfold
      split: sum.splits)

lemma transcribe_events_no_generate:
  "EvGenerate p \<notin> set (snd (transcribe_with_whisper_local e u b))"
proof (cases "is_video_file e (filename u) (content_type u)")
  case True
  from transcribe_events_video [OF True, of b] show ?thesis by (simp add: Let_def)
next
  case False
  from transcribe_events_audio [OF False, of b] show ?thesis by (simp add: Let_def)
qed

lemma process_meeting_fst:
  assumes "upload_read e = Inr file_bytes"
    and "fst (transcribe_with_whisper_local e audio file_bytes) = Inr t"
  shows "fst (process_meeting e audio language focus) =
     (case fst (summaries_and_insights e t language focus) of
        Inl x \<Rightarrow> error_response 500 ''Processing failed: '' x
      | Inr body \<Rightarrow> serialize_response body)"
  using assms
  by (cases "transcribe_with_whisper_local e audio file_bytes";
      cases "summaries_and_insights e t language focus")
    (simp add: process_meeting_def split: sum.splits)

lemma process_meeting_ok:
  assumes "fst (process_meeting e audio language focus) = JSONResponse 200 body"
  shows "\<exists>file_bytes t. upload_read e = Inr file_bytes \<and>
     fst (transcribe_with_whisper_local e audio file_bytes) = Inr t \<and>
     fst (summaries_and_insights e t language focus) = Inr body"
  using assms
  by (auto simp: process_meeting_def error_response_def serialize_response_def
      split: sum.splits prod.splits if_splits)

lemma process_meeting_events:
  "set (snd (process_meeting e audio language focus)) \<subseteq>
     (\<Union>file_bytes. set (snd (transcribe_with_whisper_local e audio file_bytes))) \<union>
     (\<Union>t. set (snd (summaries_and_insights e t language focus)))"
  by (auto simp: process_meeting_def split: sum.splits prod.splits)
    (metis snd_conv)+


text \<open>A request on the sample collaborators: the upload is not a video and is heard.\<close>

lemma sample_read: "upload_read (sample_env gen loads) = Inr []"
  by (simp add: sample_env_def)

lemma sample_transcript:
  "fst (transcribe_with_whisper_local (sample_env gen loads) sample_upload []) =
     Inr (ascii ''hello team'')"
proof -
  have s: "path_suffix (ascii ''talk.wav'') = ascii ''.wav''"
    by (simp add: path_suffix_def path_name_def rfind_def ascii_def)
  have nv: "\<not> is_video_file (sample_env gen loads) (Some (ascii ''talk.wav'')) (Some (ascii ''audio/wav''))"
    by (simp add: is_video_file_def s sample_env_def)
      (simp add: ascii_lower_def video_exts_def startswith_def ascii_def)
  have st: "strip (ascii '' hello team '') = ascii ''hello team''"
    by (simp add: strip_def lstrip_def rstrip_def is_space_def ascii_def)
  show ?thesis
    using nv
    by (simp add: transcribe_with_whisper_local_def sample_upload_def io_bind_unfold Let_def
        open_write_def model_transcribe_def io_lift_def and_then_simps st)
      (simp add: sample_env_def and_then_simps st)
qed

lemma strip_ok: "strip (ascii ''ok'') = ascii ''ok''"
  by (simp add: strip_def lstrip_def rstrip_def is_space_def ascii_def)

section \<open>The request orchestrator\<close>

text \<open>
  Claim C6. When \<^verbatim>\<open>focus_prompt\<close> strips to the empty string, a successful response
  carries the empty string under \<^verbatim>\<open>focused_summary\<close>, and no generative-text call with
  a focused-summary prompt is made during the request: \<^verbatim>\<open>summarize_focused\<close> is not run.
\<close>

theorem blank_focus_skips_focused_summary:
  assumes "strip focus = []"
  shows "(\<forall>body. fst (process_meeting e audio language focus) = JSONResponse 200 body \<longrightarrow>
            call_get body (ascii ''focused_summary'') PNone = Inr (PStr [])) \<and>
         (\<forall>t f. EvGenerate (focused_prompt t f) \<notin>
            set (snd (process_meeting e audio language focus)))"
proof (intro conjI allI impI)
  fix body
  assume "fst (process_meeting e audio language focus) = JSONResponse 200 body"
  from process_meeting_ok [OF this] obtain t
    where "fst (summaries_and_insights e t language focus) = Inr body"
    by blast
  then show "call_get body (ascii ''focused_summary'') PNone = Inr (PStr [])"
    using assms
    by (auto simp: summaries_fst and_then_Inr) (simp add: ascii_def)
next
  fix t f
  show "EvGenerate (focused_prompt t f) \<notin> set (snd (process_meeting e audio language focus))"
  proof
    assume "EvGenerate (focused_prompt t f) \<in> set (snd (process_meeting e audio language focus))"
    with process_meeting_events [of e audio language focus]
    consider file_bytes where
        "EvGenerate (focused_prompt t f) \<in> set (snd (transcribe_with_whisper_local e audio file_bytes))"
      | t' where
        "EvGenerate (focused_prompt t f) \<in> set (snd (summaries_and_insights e t' language focus))"
      by blast
    then show False
    proof cases
      case 1
      then show False by (simp add: transcribe_events_no_generate)
    next
      case 2
      with summaries_events_without_focus [OF assms, of e t' language]
      have "EvGenerate (focused_prompt t f) \<in>
          {EvGenerate (main_prompt t' language), EvGenerate (insights_prompt t'),
           EvGenerate (diarize_prompt t')}"
        by blast
      then show False by (simp add: focused_prompt_distinct)
    qed
  qed
qed

theorem blank_focus_skips_focused_summary_witness:
  "strip [32, 9] = [] \<and>
   fst (process_meeting (sample_env (\<lambda>p. Inr (text_response (ascii ''ok''))) not_json)
          sample_upload (ascii ''French'') [32, 9])
     = JSONResponse 200
         (PDict [(ascii ''summary'', PStr (ascii ''ok'')),
                 (ascii ''focused_summary'', PStr []),
                 (ascii ''actions'', PList []),
                 (ascii ''decisions'', PList []),
                 (ascii ''owners'', PList []),
                 (ascii ''risks'', PList []),
                 (ascii ''transcript'', PStr (ascii ''hello team'')),
                 (ascii ''diarized'', PStr (ascii ''ok''))]) \<and>
   call_get (content (fst (process_meeting (sample_env (\<lambda>p. Inr (text_response (ascii ''ok''))) not_json)
                             sample_upload (ascii ''French'') [32, 9])))
     (ascii ''focused_summary'') PNone = Inr (PStr []) \<and>
   EvGenerate (focused_prompt (ascii ''hello team'') []) \<notin>
     set (snd (process_meeting (sample_env (\<lambda>p. Inr (text_response (ascii ''ok''))) not_json)
                 sample_upload (ascii ''French'') [32, 9]))"
proof -
  let ?e = "sample_env (\<lambda>p. Inr (text_response (ascii ''ok''))) not_json"
  have blank: "strip [32, 9] = []"
    by (simp add: strip_def lstrip_def rstrip_def is_space_def)
  have g: "generate_content ?e p = Inr (text_response (ascii ''ok''))" for p
    by (simp add: sample_env_def)
  have j: "json_loads ?e x = not_json x" for x
    by (simp add: sample_env_def)
  have ok: "fst (process_meeting ?e sample_upload (ascii ''French'') [32, 9])
     = JSONResponse 200
         (PDict [(ascii ''summary'', PStr (ascii ''ok'')),
                 (ascii ''focused_summary'', PStr []),
                 (ascii ''actions'', PList []),
                 (ascii ''decisions'', PList []),
                 (ascii ''owners'', PList []),
                 (ascii ''risks'', PList []),
                 (ascii ''transcript'', PStr (ascii ''hello team'')),
                 (ascii ''diarized'', PStr (ascii ''ok''))])"
    by (simp add: process_meeting_fst [OF sample_read sample_transcript] summaries_fst blank
        summarize_main_unfold extract_structured_insights_unfold
        generate_diarized_transcript_unfold g j and_then_simps extract_text_text_response
        ascii_eq_Nil strip_ok not_json_def EMPTY_INSIGHTS_def)
      (simp add: serialize_response_def str_encodable_def ascii_def)
  note main = blank_focus_skips_focused_summary [OF blank, of ?e sample_upload "ascii ''French''"]
  from main [THEN conjunct1, THEN spec, THEN mp, OF ok]
  have a: "call_get (content (fst (process_meeting ?e sample_upload (ascii ''French'') [32, 9])))
     (ascii ''focused_summary'') PNone = Inr (PStr [])"
    by (simp add: ok)
  from main [THEN conjunct2]
  have b: "EvGenerate (focused_prompt (ascii ''hello team'') []) \<notin>
     set (snd (process_meeting ?e sample_upload (ascii ''French'') [32, 9]))"
    by blast
  from blank ok a b show ?thesis by blast
qed

text \<open>
  Claim C2. Once the upload is read and transcribed, if any of the four derived-artifact
  operations raises (the focused summary counting only when it is run), the response
  is HTTP 500 with the single key \<^verbatim>\<open>error\<close>, whose value is \<^verbatim>\<open>Processing failed: \<close>
  followed by the message of an exception one of the operations raised. The body holds
  nothing else: no artifact computed before the failure is in it.
\<close>

theorem processing_failure_discards_partial_results:
  assumes "upload_read e = Inr file_bytes"
    and "fst (transcribe_with_whisper_local e audio file_bytes) = Inr t"
    and "(\<exists>x. fst (summarize_main e t language) = Inl x) \<or>
         (strip focus \<noteq> [] \<and> (\<exists>x. fst (summarize_focused e t (strip focus)) = Inl x)) \<or>
         (\<exists>x. fst (extract_structured_insights e t) = Inl x) \<or>
         (\<exists>x. fst (generate_diarized_transcript e t) = Inl x)"
  shows "\<exists>x. (fst (summarize_main e t language) = Inl x \<or>
              (strip focus \<noteq> [] \<and> fst (summarize_focused e t (strip focus)) = Inl x) \<or>
              fst (extract_structured_insights e t) = Inl x \<or>
              fst (generate_diarized_transcript e t) = Inl x) \<and>
             fst (process_meeting e audio language focus) =
               JSONResponse 500
                 (PDict [(ascii ''error'', PStr (ascii ''Processing failed: '' @ exc_str x))])"
proof -
  let ?m = "fst (summarize_main e t language)"
  let ?f = "fst (summarize_focused e t (strip focus))"
  let ?i = "fst (extract_structured_insights e t)"
  let ?d = "fst (generate_diarized_transcript e t)"
  let ?resp = "\<lambda>x. JSONResponse 500
      (PDict [(ascii ''error'', PStr (ascii ''Processing failed: '' @ exc_str x))])"
  have failed: "fst (process_meeting e audio language focus) = ?resp x"
    if "fst (summaries_and_insights e t language focus) = Inl x" for x
    using that by (simp add: process_meeting_fst [OF assms(1,2)] error_response_def)
  show ?thesis
  proof (cases ?m)
    case (Inl x)
    then have "fst (summaries_and_insights e t language focus) = Inl x"
      by (simp add: summaries_fst and_then_simps)
    with Inl failed show ?thesis by blast
  next
    case m: (Inr summary)
    show ?thesis
    proof (cases "strip focus \<noteq> [] \<and> (\<exists>x. ?f = Inl x)")
      case True
      then obtain x where x: "?f = Inl x" and ne: "strip focus \<noteq> []" by blast
      with m have "fst (summaries_and_insights e t language focus) = Inl x"
        by (simp add: summaries_fst and_then_simps)
      with x ne failed show ?thesis by blast
    next
      case False
      then have "\<exists>fs. (if strip focus \<noteq> [] then ?f else Inr []) = Inr fs"
        by (cases ?f) auto
      then obtain fs where fs:
        "(if strip focus \<noteq> [] then ?f else Inr []) = Inr fs" ..
      show ?thesis
      proof (cases ?i)
        case (Inl x)
        with m fs have "fst (summaries_and_insights e t language focus) = Inl x"
          by (simp add: summaries_fst and_then_simps)
        with Inl failed show ?thesis by blast
      next
        case i: (Inr structured)
        from assms(3) m False i obtain x where x: "?d = Inl x" by auto
        with m fs i have "fst (summaries_and_insights e t language focus) = Inl x"
          by (simp add: summaries_fst and_then_simps)
        with x failed show ?thesis by blast
      qed
    qed
  qed
qed

theorem processing_failure_discards_partial_results_witness:
  "upload_read (sample_env diarization_down not_json) = Inr [] \<and>
   fst (transcribe_with_whisper_local (sample_env diarization_down not_json) sample_upload [])
     = Inr (ascii ''hello team'') \<and>
   fst (summarize_main (sample_env diarization_down not_json) (ascii ''hello team'') (ascii ''English''))
     = Inr (ascii ''ok'') \<and>
   fst (generate_diarized_transcript (sample_env diarization_down not_json) (ascii ''hello team''))
     = Inl (PyExn RuntimeError (ascii ''429 quota exceeded'')) \<and>
   fst (process_meeting (sample_env diarization_down not_json) sample_upload (ascii ''English'') [])
     = JSONResponse 500
         (PDict [(ascii ''error'', PStr (ascii ''Processing failed: 429 quota exceeded''))])"
proof -
  let ?e = "sample_env diarization_down not_json"
  let ?t = "ascii ''hello team''"
  let ?x = "PyExn RuntimeError (ascii ''429 quota exceeded'')"
  have g: "generate_content ?e p = diarization_down p" for p
    by (simp add: sample_env_def)
  have j: "json_loads ?e x = not_json x" for x
    by (simp add: sample_env_def)
  have blank: "strip [] = []"
    by (rule strip_Nil)
  have m: "fst (summarize_main ?e ?t (ascii ''English'')) = Inr (ascii ''ok'')"
    by (simp add: summarize_main_unfold g diarization_down_def prompt_heads and_then_simps
        extract_text_text_response ascii_eq_Nil strip_ok)
  have i: "fst (extract_structured_insights ?e ?t) = Inr EMPTY_INSIGHTS"
    by (simp add: extract_structured_insights_unfold g j diarization_down_def prompt_heads
        and_then_simps extract_text_text_response not_json_def)
  have d: "fst (generate_diarized_transcript ?e ?t) = Inl ?x"
    by (simp add: generate_diarized_transcript_unfold g diarization_down_def prompt_heads
        and_then_simps)
  have any: "(\<exists>x. fst (summarize_main ?e ?t (ascii ''English'')) = Inl x) \<or>
         (strip [] \<noteq> [] \<and> (\<exists>x. fst (summarize_focused ?e ?t (strip [])) = Inl x)) \<or>
         (\<exists>x. fst (extract_structured_insights ?e ?t) = Inl x) \<or>
         (\<exists>x. fst (generate_diarized_transcript ?e ?t) = Inl x)"
    using d by simp
  from processing_failure_discards_partial_results [OF sample_read sample_transcript any]
  obtain x where
    "fst (summarize_main ?e ?t (ascii ''English'')) = Inl x \<or>
     (strip [] \<noteq> [] \<and> fst (summarize_focused ?e ?t (strip [])) = Inl x) \<or>
     fst (extract_structured_insights ?e ?t) = Inl x \<or>
     fst (generate_diarized_transcript ?e ?t) = Inl x"
    and r: "fst (process_meeting ?e sample_upload (ascii ''English'') []) =
      JSONResponse 500 (PDict [(ascii ''error'', PStr (ascii ''Processing failed: '' @ exc_str x))])"
    by blast
  then have "x = ?x"
    by (simp add: m i d blank)
  with r have "fst (process_meeting ?e sample_upload (ascii ''English'') []) =
      JSONResponse 500 (PDict [(ascii ''error'', PStr (ascii ''Processing failed: 429 quota exceeded''))])"
    by (simp add: ascii_def)
  with sample_read [of diarization_down not_json] sample_transcript [of diarization_down not_json] m d
  show ?thesis by blast
qed

section \<open>Structured insights in the response\<close>

lemma process_meeting_dict:
  assumes "upload_read e = Inr file_bytes"
    and "fst (transcribe_with_whisper_local e audio file_bytes) = Inr t"
    and "fst (summarize_main e t language) = Inr summary"
    and "(if strip focus \<noteq> [] then fst (summarize_focused e t (strip focus)) else Inr [])
           = Inr focused_summary"
    and "fst (extract_structured_insights e t) = Inr (PDict d)"
    and "fst (generate_diarized_transcript e t) = Inr diarized"
  shows "fst (process_meeting e audio language focus) =
     serialize_response
       (PDict [(ascii ''summary'', PStr summary),
               (ascii ''focused_summary'', PStr focused_summary),
               (ascii ''actions'',
                case map_of d (ascii ''actions'') of None \<Rightarrow> PList [] | Some v \<Rightarrow> v),
               (ascii ''decisions'',
                case map_of d (ascii ''decisions'') of None \<Rightarrow> PList [] | Some v \<Rightarrow> v),
               (ascii ''owners'',
                case map_of d (ascii ''owners'') of None \<Rightarrow> PList [] | Some v \<Rightarrow> v),
               (ascii ''risks'',
                case map_of d (ascii ''risks'') of None \<Rightarrow> PList [] | Some v \<Rightarrow> v),
               (ascii ''transcript'', PStr t),
               (ascii ''diarized'', PStr diarized)])"
  using assms(3-6)
  by (simp add: process_meeting_fst [OF assms(1,2)] summaries_fst and_then_simps)


lemma insights_answering_run:
  assumes "strip js = js" and "js \<noteq> []"
  shows "fst (summarize_main (sample_env (insights_answering js) loads) t language)
           = Inr (ascii ''ok'')"
    and "fst (generate_diarized_transcript (sample_env (insights_answering js) loads) t)
           = Inr (ascii ''ok'')"
    and "fst (extract_structured_insights (sample_env (insights_answering js) (loads_as js v)) t)
           = Inr v"
proof -
  have g: "generate_content (sample_env (insights_answering js) l) p = insights_answering js p"
    for l p
    by (simp add: sample_env_def)
  show "fst (summarize_main (sample_env (insights_answering js) loads) t language)
      = Inr (ascii ''ok'')"
    by (simp add: summarize_main_unfold g insights_answering_def prompt_heads and_then_simps
        extract_text_text_response ascii_eq_Nil strip_ok)
  show "fst (generate_diarized_transcript (sample_env (insights_answering js) loads) t)
      = Inr (ascii ''ok'')"
    by (simp add: generate_diarized_transcript_unfold g insights_answering_def prompt_heads
        and_then_simps extract_text_text_response ascii_eq_Nil strip_ok)
  have j: "json_loads (sample_env (insights_answering js) (loads_as js v)) js = Inr v"
    by (simp add: sample_env_def loads_as_def)
  show "fst (extract_structured_insights (sample_env (insights_answering js) (loads_as js v)) t)
      = Inr v"
    using assms
    by (simp add: extract_structured_insights_unfold g insights_answering_def prompt_heads
        and_then_simps extract_text_text_response j)
qed

text \<open>
  The model answers with valid JSON of the documented shape whose one risk is the
  string escape of a lone surrogate. \<^verbatim>\<open>extract_structured_insights\<close> returns the parsed
  object, the other operations succeed and the handler returns its dict; the rendering
  of the dict then raises on the surrogate and the client receives 500 Internal Server
  Error, with none of the four values in the body.
\<close>

theorem insights_round_trip_surrogate_counterexample:
  "fst (extract_structured_insights
          (sample_env (insights_answering surrogate_insights_text)
             (loads_as surrogate_insights_text (PDict surrogate_insights_items)))
          (ascii ''hello team''))
     = Inr (PDict [(ascii ''actions'', PList []), (ascii ''decisions'', PList []),
                   (ascii ''owners'', PList []), (ascii ''risks'', PList [PStr [55296]])]) \<and>
   fst (summarize_main
          (sample_env (insights_answering surrogate_insights_text)
             (loads_as surrogate_insights_text (PDict surrogate_insights_items)))
          (ascii ''hello team'') (ascii ''English''))
     = Inr (ascii ''ok'') \<and>
   fst (generate_diarized_transcript
          (sample_env (insights_answering surrogate_insights_text)
             (loads_as surrogate_insights_text (PDict surrogate_insights_items)))
          (ascii ''hello team''))
     = Inr (ascii ''ok'') \<and>
   fst (process_meeting
          (sample_env (insights_answering surrogate_insights_text)
             (loads_as surrogate_insights_text (PDict surrogate_insights_items)))
          sample_upload (ascii ''English'') [])
     = PlainTextResponse 500 (ascii ''Internal Server Error'')"
proof -
  let ?e = "sample_env (insights_answering surrogate_insights_text)
      (loads_as surrogate_insights_text (PDict surrogate_insights_items))"
  let ?t = "ascii ''hello team''"
  have st: "strip surrogate_insights_text = surrogate_insights_text"
    by (simp add: surrogate_insights_text_def DQ_def strip_def lstrip_def rstrip_def
        is_space_def ascii_def)
  have ne: "surrogate_insights_text \<noteq> []"
    by (simp add: surrogate_insights_text_def ascii_def)
  note run = insights_answering_run [OF st ne]
  have i: "fst (extract_structured_insights ?e ?t) = Inr (PDict surrogate_insights_items)"
    by (rule run(3))
  have m: "fst (summarize_main ?e ?t (ascii ''English'')) = Inr (ascii ''ok'')"
    by (rule run(1))
  have d: "fst (generate_diarized_transcript ?e ?t) = Inr (ascii ''ok'')"
    by (rule run(2))
  have f: "(if strip [] \<noteq> [] then fst (summarize_focused ?e ?t (strip [])) else Inr []) = Inr []"
    by (simp add: strip_Nil)
  have "fst (process_meeting ?e sample_upload (ascii ''English'') [])
      = PlainTextResponse 500 (ascii ''Internal Server Error'')"
    by (simp add: process_meeting_dict [OF sample_read sample_transcript m f i d]
        serialize_response_def)
      (simp add: surrogate_insights_items_def str_encodable_def ascii_def)
  with i m d show ?thesis
    by (simp add: surrogate_insights_items_def)
qed

text \<open>
  Claim C8, amended. When the text extracted from the model's answer parses as a JSON
  object that has the keys \<^verbatim>\<open>actions\<close>, \<^verbatim>\<open>decisions\<close>, \<^verbatim>\<open>owners\<close> and \<^verbatim>\<open>risks\<close>,
  \<^verbatim>\<open>extract_structured_insights\<close> returns the parsed object itself, and the dict
  assembled by \<^verbatim>\<open>process_meeting\<close> holds the four values of the object, unchanged,
  under the same four keys. The client receives that dict with status 200 when it can
  be rendered as JSON (no infinite or not-a-number float, no surrogate code point), and
  500 Internal Server Error otherwise.
\<close>

theorem insights_round_trip:
  assumes "upload_read e = Inr file_bytes"
    and "fst (transcribe_with_whisper_local e audio file_bytes) = Inr t"
    and "generate_content e (insights_prompt t) = Inr response"
    and "extract_text response = Inr x"
    and "json_loads e x = Inr (PDict d)"
    and "map_of d (ascii ''actions'') = Some actions"
    and "map_of d (ascii ''decisions'') = Some decisions"
    and "map_of d (ascii ''owners'') = Some owners"
    and "map_of d (ascii ''risks'') = Some risks"
    and "fst (summarize_main e t language) = Inr summary"
    and "(if strip focus \<noteq> [] then fst (summarize_focused e t (strip focus)) else Inr [])
           = Inr focused_summary"
    and "fst (generate_diarized_transcript e t) = Inr diarized"
  shows "fst (extract_structured_insights e t) = Inr (PDict d) \<and>
     fst (process_meeting e audio language focus) =
       (let body = PDict [(ascii ''summary'', PStr summary),
                          (ascii ''focused_summary'', PStr focused_summary),
                          (ascii ''actions'', actions),
                          (ascii ''decisions'', decisions),
                          (ascii ''owners'', owners),
                          (ascii ''risks'', risks),
                          (ascii ''transcript'', PStr t),
                          (ascii ''diarized'', PStr diarized)]
        in if json_renderable body then JSONResponse 200 body
           else PlainTextResponse 500 (ascii ''Internal Server Error''))"
proof -
  have i: "fst (extract_structured_insights e t) = Inr (PDict d)"
    using assms(3-5) by (simp add: extract_structured_insights_unfold and_then_simps)
  from process_meeting_dict [OF assms(1,2,10,11) i assms(12)] i show ?thesis
    by (simp add: assms(6-9) serialize_response_def Let_def)
qed

theorem insights_round_trip_witness:
  "fst (extract_structured_insights (sample_env insights_client insights_loads) (ascii ''hello team''))
     = Inr (PDict [(ascii ''actions'', PList []), (ascii ''decisions'', PList [PStr (ascii ''ship'')]),
                   (ascii ''owners'', PList []), (ascii ''risks'', PList [PStr (ascii ''delay'')])]) \<and>
   fst (process_meeting (sample_env insights_client insights_loads) sample_upload (ascii ''English'') [])
     = JSONResponse 200
         (PDict [(ascii ''summary'', PStr (ascii ''ok'')),
                 (ascii ''focused_summary'', PStr []),
                 (ascii ''actions'', PList []),
                 (ascii ''decisions'', PList [PStr (ascii ''ship'')]),
                 (ascii ''owners'', PList []),
                 (ascii ''risks'', PList [PStr (ascii ''delay'')]),
                 (ascii ''transcript'', PStr (ascii ''hello team'')),
                 (ascii ''diarized'', PStr (ascii ''ok''))])"
proof -
  let ?e = "sample_env insights_client insights_loads"
  let ?t = "ascii ''hello team''"
  have g: "generate_content ?e p = insights_client p" for p
    by (simp add: sample_env_def)
  have gi: "generate_content ?e (insights_prompt ?t) = Inr (text_response sample_insights_text)"
    by (simp add: g insights_client_def prompt_heads)
  have x: "extract_text (text_response sample_insights_text) = Inr sample_insights_text"
    by (simp add: extract_text_text_response)
      (simp add: sample_insights_text_def DQ_def strip_def lstrip_def rstrip_def is_space_def
        ascii_def)
  have j: "json_loads ?e sample_insights_text = Inr (PDict sample_insights_items)"
    by (simp add: sample_env_def insights_loads_def)
  have k1: "map_of sample_insights_items (ascii ''actions'') = Some (PList [])"
    and k2: "map_of sample_insights_items (ascii ''decisions'') = Some (PList [PStr (ascii ''ship'')])"
    and k3: "map_of sample_insights_items (ascii ''owners'') = Some (PList [])"
    and k4: "map_of sample_insights_items (ascii ''risks'') = Some (PList [PStr (ascii ''delay'')])"
    by (simp_all add: sample_insights_items_def ascii_def)
  have m: "fst (summarize_main ?e ?t (ascii ''English'')) = Inr (ascii ''ok'')"
    by (simp add: summarize_main_unfold g insights_client_def prompt_heads and_then_simps
        extract_text_text_response ascii_eq_Nil strip_ok)
  have f: "(if strip [] \<noteq> [] then fst (summarize_focused ?e ?t (strip [])) else Inr []) = Inr []"
    by (simp add: strip_Nil)
  have d: "fst (generate_diarized_transcript ?e ?t) = Inr (ascii ''ok'')"
    by (simp add: generate_diarized_transcript_unfold g insights_client_def prompt_heads
        and_then_simps extract_text_text_response ascii_eq_Nil strip_ok)
  have rend: "json_renderable
      (PDict [(ascii ''summary'', PStr (ascii ''ok'')),
              (ascii ''focused_summary'', PStr []),
              (ascii ''actions'', PList []),
              (ascii ''decisions'', PList [PStr (ascii ''ship'')]),
              (ascii ''owners'', PList []),
              (ascii ''risks'', PList [PStr (ascii ''delay'')]),
              (ascii ''transcript'', PStr (ascii ''hello team'')),
              (ascii ''diarized'', PStr (ascii ''ok''))])"
    by (simp add: str_encodable_def ascii_def)
  from insights_round_trip [OF sample_read sample_transcript gi x j k1 k2 k3 k4 m f d] rend
  show ?thesis
    by (simp add: sample_insights_items_def Let_def)
qed





end
